theory Spec2Isabelle
  imports Complex_Main
begin

section \<open>Text and character classes\<close>

text \<open>
  Python text is modelled as \<^typ>\<open>string\<close>; a \<^typ>\<open>char\<close> stands for a code point
  below 256. The classes below are the ones Python's \<open>re\<close> module and \<open>str\<close> methods
  use on such code points: \<open>\d\<close> is \<open>0-9\<close>; \<open>\s\<close> and \<open>str.strip\<close> share the
  whitespace set (tab to carriage return, the four separators 0x1C to 0x1F, space,
  0x85 and 0xA0); \<open>\w\<close> is the alphanumerics and the underscore.
\<close>

type_synonym cls = "char \<Rightarrow> bool"

definition code :: "char \<Rightarrow> nat" where
  "code c = of_char c"

definition in_range :: "nat \<Rightarrow> nat \<Rightarrow> cls" where
  "in_range lo hi c = (lo \<le> code c \<and> code c \<le> hi)"

definition is_digit :: cls where
  "is_digit c = in_range 48 57 c"

definition is_upper :: cls where
  "is_upper c = in_range 65 90 c"

definition is_lower :: cls where
  "is_lower c = in_range 97 122 c"

definition is_alpha :: cls where
  "is_alpha c = (is_upper c \<or> is_lower c)"

definition is_alnum :: cls where
  "is_alnum c = (is_alpha c \<or> is_digit c)"

definition is_space :: cls where
  "is_space c = (in_range 9 13 c \<or> in_range 28 32 c \<or> code c = 133 \<or> code c = 160)"

definition is_word :: cls where
  "is_word c = (is_alnum c \<or> c = CHR ''_'' \<or> code c = 170 \<or> code c = 178 \<or> code c = 179
     \<or> code c = 181 \<or> code c = 185 \<or> code c = 186 \<or> in_range 188 190 c
     \<or> in_range 192 214 c \<or> in_range 216 246 c \<or> in_range 248 255 c)"

definition newline :: char where
  "newline = CHR 0x0A"

text \<open>\<open>str.lower\<close> on code points below 256.\<close>

definition lower_char :: "char \<Rightarrow> char" where
  "lower_char c =
     (if is_upper c \<or> in_range 192 214 c \<or> in_range 216 222 c then char_of (code c + 32) else c)"

definition lower :: "string \<Rightarrow> string" where
  "lower s = map lower_char s"

text \<open>A literal character of a pattern, and the same under \<open>re.IGNORECASE\<close>.\<close>

definition eq :: "char \<Rightarrow> cls" where
  "eq a c = (c = a)"

definition ci :: "char \<Rightarrow> cls" where
  "ci a c = (c = a \<or> (is_alpha a \<and> is_alpha c \<and> lower_char c = lower_char a))"

definition one_of :: "string \<Rightarrow> cls" where
  "one_of s c = (c \<in> set s)"

definition either :: "cls \<Rightarrow> cls \<Rightarrow> cls" where
  "either p q c = (p c \<or> q c)"

definition not_newline :: cls where
  "not_newline c = (c \<noteq> newline)"

text \<open>\<open>str.strip()\<close>, \<open>str.split('\n')\<close>, \<open>' '.join(xs)\<close> and \<open>a in b\<close> on strings.\<close>

definition strip :: "string \<Rightarrow> string" where
  "strip s = rev (dropWhile is_space (rev (dropWhile is_space s)))"

fun split_nl :: "string \<Rightarrow> string list" where
  "split_nl [] = [[]]"
| "split_nl (c # cs) =
     (if c = newline then [] # split_nl cs
      else (case split_nl cs of [] \<Rightarrow> [[c]] | l # ls \<Rightarrow> (c # l) # ls))"

fun join_sp :: "string list \<Rightarrow> string" where
  "join_sp [] = []"
| "join_sp [x] = x"
| "join_sp (x # y # ys) = x @ '' '' @ join_sp (y # ys)"

fun starts_with :: "string \<Rightarrow> string \<Rightarrow> bool" where
  "starts_with [] s = True"
| "starts_with (p # ps) [] = False"
| "starts_with (p # ps) (c # cs) = (p = c \<and> starts_with ps cs)"

fun contains :: "string \<Rightarrow> string \<Rightarrow> bool" where
  "contains p [] = (p = [])"
| "contains p (c # cs) = (starts_with p (c # cs) \<or> contains p cs)"

section \<open>A backtracking matcher for the patterns of the source\<close>

text \<open>
  The patterns are kept as syntax trees and matched the way Python's engine does:
  alternatives left to right, greedy repetition longest first, lazy repetition
  shortest first, and the rest of the pattern (the list \<open>k\<close>) decides whether a choice
  stands. Repetition is only ever applied to a single character class in the source's
  patterns, so \<open>Rep c lo hi\<close> repeats a class (\<open>hi = None\<close> is unbounded), and a
  group is repeated only as an optional one (\<open>Opt\<close>); a look-behind is a fixed
  sequence of classes.
\<close>

datatype regex =
    Eps
  | Chr cls
  | Seq regex regex
  | Alt regex regex
  | Opt regex
  | Rep cls nat "nat option"
  | LazyStar cls
  | GOpen nat
  | GClose nat
  | NotBehind "cls list"
  | NotAhead regex
  | WordB
  | Bol
  | Eos

record mstate =
  seen :: string
  rest :: string
  opens :: "(nat \<times> nat) list"
  caps :: "(nat \<times> string) list"

primrec rsize :: "regex \<Rightarrow> nat" where
  "rsize Eps = 1"
| "rsize (Chr c) = 1"
| "rsize (Seq a b) = Suc (rsize a + rsize b)"
| "rsize (Alt a b) = Suc (rsize a + rsize b)"
| "rsize (Opt a) = Suc (rsize a)"
| "rsize (Rep c lo hi) = 1"
| "rsize (LazyStar c) = 1"
| "rsize (GOpen n) = 1"
| "rsize (GClose n) = 1"
| "rsize (NotBehind cs) = 1"
| "rsize (NotAhead a) = Suc (rsize a)"
| "rsize WordB = 1"
| "rsize Bol = 1"
| "rsize Eos = 1"

definition advance :: "mstate \<Rightarrow> mstate" where
  "advance st = st\<lparr>seen := hd (rest st) # seen st, rest := tl (rest st)\<rparr>"

definition next_is :: "cls \<Rightarrow> mstate \<Rightarrow> bool" where
  "next_is c st = (case rest st of [] \<Rightarrow> False | x # xs \<Rightarrow> c x)"

definition prev_is :: "cls \<Rightarrow> mstate \<Rightarrow> bool" where
  "prev_is c st = (case seen st of [] \<Rightarrow> False | x # xs \<Rightarrow> c x)"

fun all_match :: "cls list \<Rightarrow> string \<Rightarrow> bool" where
  "all_match [] s = True"
| "all_match (c # cs) [] = False"
| "all_match (c # cs) (x # xs) = (c x \<and> all_match cs xs)"

definition dec :: "nat option \<Rightarrow> nat option" where
  "dec hi = (case hi of None \<Rightarrow> None | Some n \<Rightarrow> Some (n - 1))"

definition close_group :: "nat \<Rightarrow> mstate \<Rightarrow> mstate" where
  "close_group n st =
     (case map_of (opens st) n of
        None \<Rightarrow> st
      | Some start \<Rightarrow>
          st\<lparr>caps := (n, rev (take (length (seen st) - start) (seen st))) # caps st\<rparr>)"

function m :: "regex list \<Rightarrow> mstate \<Rightarrow> mstate option" where
  "m [] st = Some st"
| "m (Eps # k) st = m k st"
| "m (Chr c # k) st = (if next_is c st then m k (advance st) else None)"
| "m (Seq a b # k) st = m (a # b # k) st"
| "m (Alt a b # k) st = (case m (a # k) st of Some r \<Rightarrow> Some r | None \<Rightarrow> m (b # k) st)"
| "m (Opt a # k) st = (case m (a # k) st of Some r \<Rightarrow> Some r | None \<Rightarrow> m k st)"
| "m (Rep c lo hi # k) st =
     (if hi \<noteq> Some 0 \<and> next_is c st then
        (case m (Rep c (lo - 1) (dec hi) # k) (advance st) of
           Some r \<Rightarrow> Some r
         | None \<Rightarrow> if lo = 0 then m k st else None)
      else if lo = 0 then m k st else None)"
| "m (LazyStar c # k) st =
     (case m k st of
        Some r \<Rightarrow> Some r
      | None \<Rightarrow> if next_is c st then m (LazyStar c # k) (advance st) else None)"
| "m (GOpen n # k) st = m k (st\<lparr>opens := (n, length (seen st)) # opens st\<rparr>)"
| "m (GClose n # k) st = m k (close_group n st)"
| "m (NotBehind cs # k) st = (if all_match (rev cs) (seen st) then None else m k st)"
| "m (NotAhead a # k) st = (case m [a] st of Some r \<Rightarrow> None | None \<Rightarrow> m k st)"
| "m (WordB # k) st = (if prev_is is_word st \<noteq> next_is is_word st then m k st else None)"
| "m (Bol # k) st = (if seen st = [] then m k st else None)"
| "m (Eos # k) st = (if rest st = [] then m k st else None)"
  by pat_completeness auto
termination
  by (relation "measures [\<lambda>(k, st). length (rest st), \<lambda>(k, st). sum_list (map rsize k)]")
     (auto simp: advance_def next_is_def close_group_def split: list.splits option.splits)


subsection \<open>Building patterns\<close>

definition seqs :: "regex list \<Rightarrow> regex" where
  "seqs rs = foldr Seq rs Eps"

fun alts :: "regex list \<Rightarrow> regex" where
  "alts [] = NotAhead Eps"
| "alts [r] = r"
| "alts (r # r' # rs) = Alt r (alts (r' # rs))"

definition lit :: "string \<Rightarrow> regex" where
  "lit s = seqs (map (\<lambda>c. Chr (eq c)) s)"

definition lit_ci :: "string \<Rightarrow> regex" where
  "lit_ci s = seqs (map (\<lambda>c. Chr (ci c)) s)"

definition grp :: "nat \<Rightarrow> regex \<Rightarrow> regex" where
  "grp n r = Seq (GOpen n) (Seq r (GClose n))"

definition star :: "cls \<Rightarrow> regex" where
  "star c = Rep c 0 None"

definition plus :: "cls \<Rightarrow> regex" where
  "plus c = Rep c 1 None"

definition opt_c :: "cls \<Rightarrow> regex" where
  "opt_c c = Rep c 0 (Some 1)"

definition times :: "cls \<Rightarrow> nat \<Rightarrow> regex" where
  "times c n = Rep c n (Some n)"

subsection \<open>\<open>re.search\<close>, \<open>re.fullmatch\<close>, \<open>re.findall\<close>, \<open>re.split\<close>, \<open>re.sub\<close>\<close>

definition start_at :: "string \<Rightarrow> string \<Rightarrow> mstate" where
  "start_at b s = \<lparr>seen = b, rest = s, opens = [], caps = []\<rparr>"

text \<open>\<open>re.search\<close>: the first position, left to right, at which the pattern matches.\<close>

fun search_from :: "regex \<Rightarrow> string \<Rightarrow> string \<Rightarrow> mstate option" where
  "search_from r b [] = m [r] (start_at b [])"
| "search_from r b (x # xs) =
     (case m [r] (start_at b (x # xs)) of
        Some st \<Rightarrow> Some st
      | None \<Rightarrow> search_from r (x # b) xs)"

definition re_search :: "regex \<Rightarrow> string \<Rightarrow> mstate option" where
  "re_search r s = search_from r [] s"

definition found :: "regex \<Rightarrow> string \<Rightarrow> bool" where
  "found r s = (re_search r s \<noteq> None)"

definition re_fullmatch :: "regex \<Rightarrow> string \<Rightarrow> bool" where
  "re_fullmatch r s = (m [r, Eos] (start_at [] s) \<noteq> None)"

text \<open>\<open>match.group(n)\<close>; a group that took no part reads as the empty string in
  \<open>re.findall\<close>.\<close>

definition group :: "mstate \<Rightarrow> nat \<Rightarrow> string" where
  "group st n = (case map_of (caps st) n of None \<Rightarrow> [] | Some g \<Rightarrow> g)"

definition matched :: "string \<Rightarrow> mstate \<Rightarrow> string" where
  "matched b st = rev (take (length (seen st) - length b) (seen st))"

text \<open>
  The matches of a pattern, left to right and not overlapping, each as the state
  the matcher ended in, paired with the matched text. None of the patterns of
  the source matches the empty string; the scan steps over an empty match by one
  character.
\<close>

function scan :: "regex \<Rightarrow> string \<Rightarrow> string \<Rightarrow> (string \<times> mstate) list" where
  "scan r b s =
     (case m [r] (start_at b s) of
        None \<Rightarrow> (case s of [] \<Rightarrow> [] | x # xs \<Rightarrow> scan r (x # b) xs)
      | Some st \<Rightarrow>
          if length (rest st) < length s then (matched b st, st) # scan r (seen st) (rest st)
          else (case s of [] \<Rightarrow> [([], st)] | x # xs \<Rightarrow> ([], st) # scan r (x # b) xs))"
  by pat_completeness auto
termination
  by (relation "measure (\<lambda>(r, b, s). length s)") auto

text \<open>\<open>re.findall\<close> for a pattern without a group (the whole match) and for a pattern
  with exactly one group (the text of that group).\<close>

definition findall0 :: "regex \<Rightarrow> string \<Rightarrow> string list" where
  "findall0 r s = map fst (scan r [] s)"

definition findall1 :: "regex \<Rightarrow> string \<Rightarrow> string list" where
  "findall1 r s = map (\<lambda>(t, st). group st 1) (scan r [] s)"

text \<open>\<open>re.split\<close> for a pattern without a group: the pieces between the matches.\<close>

function split_from :: "regex \<Rightarrow> string \<Rightarrow> string \<Rightarrow> string \<Rightarrow> string list" where
  "split_from r b s piece =
     (case s of
        [] \<Rightarrow> [rev piece]
      | x # xs \<Rightarrow>
          (case m [r] (start_at b s) of
             None \<Rightarrow> split_from r (x # b) xs (x # piece)
           | Some st \<Rightarrow>
               if length (rest st) < length s
               then rev piece # split_from r (seen st) (rest st) []
               else split_from r (x # b) xs (x # piece)))"
  by pat_completeness auto
termination
  by (relation "measure (\<lambda>(r, b, s, piece). length s)") auto

definition re_split :: "regex \<Rightarrow> string \<Rightarrow> string list" where
  "re_split r s = split_from r [] s []"

text \<open>\<open>re.sub(c, '', s)\<close> for a pattern \<open>c\<close> that is one character class.\<close>

definition re_sub_del :: "cls \<Rightarrow> string \<Rightarrow> string" where
  "re_sub_del c s = filter (\<lambda>x. \<not> c x) s"

text \<open>\<open>list(dict.fromkeys(xs))\<close>: a dict keeps its keys in insertion order, and
  setting a key that is present leaves its place.\<close>

definition dict_add_key :: "'a list \<Rightarrow> 'a \<Rightarrow> 'a list" where
  "dict_add_key d k = (if k \<in> set d then d else d @ [k])"

definition fromkeys :: "'a list \<Rightarrow> 'a list" where
  "fromkeys xs = foldl dict_add_key [] xs"

section \<open>Contact extraction (\<open>agents/resource_agent.py\<close>, \<open>agents/enhanced_resource_agent.py\<close>)\<close>

record contacts =
  phone :: "string list"
  emergency_phone :: "string list"
  email :: "string list"
  address :: "string list"

definition sep :: cls where
  "sep = either (one_of ''-.'') is_space"

definition us_format :: regex where
  "us_format = seqs [opt_c (eq CHR ''(''), times is_digit 3, opt_c (eq CHR '')''), opt_c sep,
                     times is_digit 3, opt_c sep, times is_digit 4]"

definition global_format :: regex where
  "global_format = seqs
     [Opt (seqs [Chr (eq CHR ''+''), Rep is_digit 1 (Some 3), opt_c sep]),
      Opt (seqs [opt_c (eq CHR ''(''), Rep is_digit 1 (Some 4), opt_c (eq CHR '')''), opt_c sep]),
      Rep (either is_digit (either is_space (eq CHR ''-''))) 7 (Some 18),
      Opt (seqs [star is_space, alts [lit_ci ''ext'', lit_ci ''x'', lit ''#''],
                 opt_c (eq CHR ''.''), star is_space, Rep is_digit 1 (Some 5)])]"

definition tel_link :: regex where
  "tel_link = seqs
     [Chr (eq CHR ''[''), LazyStar not_newline, Chr (eq CHR '']''), Chr (eq CHR ''(''),
      lit_ci ''tel:'', grp 1 (plus (either is_digit (either is_space (one_of ''+()-'')))),
      Chr (eq CHR '')'')]"

definition emergency_phone_pattern :: regex where
  "emergency_phone_pattern = alts
     [seqs [alts [lit_ci ''emergency'', lit_ci ''hotline'', lit_ci ''urgent'', lit_ci ''24/7'',
                  lit_ci ''rescue''],
            star sep, opt_c (eq CHR '':''), star sep, us_format],
      global_format,
      tel_link]"

definition phone_pattern :: regex where
  "phone_pattern = alts
     [seqs [NotBehind [is_digit, is_digit, is_digit, is_digit, sep], us_format],
      global_format,
      seqs [tel_link,
            NotAhead (seqs [Chr sep, times is_digit 2]),
            NotAhead (seqs [star is_space, alts [lit_ci ''BC'', lit_ci ''AD''], WordB]),
            NotAhead (seqs [star is_space, alts [lit ''19'', lit ''20''], times is_digit 2])]]"

definition clean_phone :: "string \<Rightarrow> string" where
  "clean_phone phone_str = strip (re_sub_del (either (one_of ''-.()'') is_space) phone_str)"

definition digit_count :: "string \<Rightarrow> nat" where
  "digit_count s = length (re_sub_del (\<lambda>c. \<not> is_digit c) s)"

text \<open>The pattern has one group, so \<open>findall\<close> yields a list of strings and
  \<open>phone_str\<close> is \<open>''.join(match)\<close>, the string itself.\<close>

definition cleaned_emergency_phones :: "string \<Rightarrow> string list" where
  "cleaned_emergency_phones text =
     filter (\<lambda>p. 7 \<le> digit_count p) (map clean_phone (findall1 emergency_phone_pattern text))"

definition cleaned_phones :: "string \<Rightarrow> string list \<Rightarrow> string list" where
  "cleaned_phones text emergency =
     filter (\<lambda>p. 7 \<le> digit_count p
                \<and> \<not> (re_fullmatch (times is_digit 4) p \<or> re_fullmatch (times is_digit 6) p)
                \<and> p \<notin> set emergency)
       (map clean_phone (findall1 phone_pattern text))"

definition email_pattern :: regex where
  "email_pattern = seqs
     [WordB, plus (either is_alnum (one_of ''._%+-'')), Chr (eq CHR ''@''),
      plus (either is_alnum (one_of ''.-'')), Chr (eq CHR ''.''), Rep is_alpha 2 None, WordB]"


subsection \<open>The address pass\<close>

definition street_number_start :: regex where
  "street_number_start = seqs [Bol, plus is_digit, plus is_space, plus is_word]"

definition street_type :: regex where
  "street_type = seqs
     [WordB,
      alts (map lit_ci [''St'', ''Ave'', ''Rd'', ''Blvd'', ''Ln'', ''Cir'', ''Dr'', ''Ct'', ''Pl'',
        ''Sq'', ''Street'', ''Avenue'', ''Road'', ''Boulevard'', ''Lane'', ''Circle'', ''Drive'',
        ''Court'', ''Place'', ''Square'']),
      WordB]"

definition us_zip :: regex where
  "us_zip = seqs [WordB, times is_digit 5, Opt (seqs [Chr (eq CHR ''-''), times is_digit 4]), WordB]"

definition canadian_postal_code :: regex where
  "canadian_postal_code = seqs
     [WordB, Chr is_alpha, Chr is_digit, Chr is_alpha, star is_space,
      Chr is_digit, Chr is_alpha, Chr is_digit, WordB]"

text \<open>In \<open>P.O. Box\<close> the dots are unescaped in the source: each stands for any character
  but a newline. The parentheses of this pattern and of the street types form a group
  in the source; the code only asks whether the pattern occurs, so the group is not
  recorded.\<close>

definition po_box :: regex where
  "po_box = seqs
     [WordB,
      alts [lit_ci ''PO Box'',
            seqs [Chr (ci CHR ''P''), Chr not_newline, Chr (ci CHR ''O''), Chr not_newline,
                  lit_ci '' Box'']],
      WordB]"

definition address_header :: regex where
  "address_header = seqs [Bol, lit ''**'', plus is_word, plus is_space, lit_ci ''Address'', lit ''**'']"

definition markers_only :: regex where
  "markers_only = plus (either (one_of ''-*'') is_space)"

definition number_then_word :: regex where
  "number_then_word = seqs [plus is_digit, plus is_space, plus is_word]"

definition is_address_line :: "string \<Rightarrow> bool" where
  "is_address_line cleaned_line =
     (found street_number_start cleaned_line \<or> found street_type cleaned_line
      \<or> found us_zip cleaned_line \<or> found canadian_postal_code cleaned_line
      \<or> found po_box cleaned_line \<or> found address_header cleaned_line)"

definition continues_block :: "string \<Rightarrow> bool" where
  "continues_block cleaned_line =
     (found (seqs [Bol, Chr is_word]) cleaned_line \<or> found (seqs [Chr is_alpha, WordB]) cleaned_line)"

text \<open>The first loop: \<open>address_candidates\<close> grows line by line.\<close>

fun collect_candidates :: "string list \<Rightarrow> string list \<Rightarrow> string list" where
  "collect_candidates [] address_candidates = address_candidates"
| "collect_candidates (line # ls) address_candidates =
     (let cleaned_line = strip line in
      if is_address_line cleaned_line
      then collect_candidates ls (address_candidates @ [cleaned_line])
      else if address_candidates \<noteq> [] \<and> cleaned_line \<noteq> []
              \<and> \<not> re_fullmatch markers_only cleaned_line
      then (if continues_block cleaned_line
            then collect_candidates ls (address_candidates @ [cleaned_line])
            else collect_candidates ls address_candidates)
      else collect_candidates ls address_candidates)"

text \<open>The second loop: consecutive candidates are grouped into blocks; its state is
  \<open>compiled_addresses\<close> and \<open>current_block\<close>.\<close>

definition flush :: "string list \<Rightarrow> string list \<Rightarrow> string list" where
  "flush compiled current_block =
     (if current_block \<noteq> [] then compiled @ [join_sp current_block] else compiled)"

fun group_blocks :: "string list \<Rightarrow> string list \<Rightarrow> string list \<Rightarrow> string list" where
  "group_blocks [] compiled current_block = flush compiled current_block"
| "group_blocks (line # ls) compiled current_block =
     (if line \<noteq> [] \<and> \<not> re_fullmatch markers_only line then
        (if current_block = [] \<or> strip (last current_block) \<noteq> []
         then group_blocks ls compiled (current_block @ [line])
         else group_blocks ls (flush compiled current_block) [line])
      else group_blocks ls (flush compiled current_block) [])"

text \<open>The third loop: every block is split at gaps of ten or more whitespace
  characters and the parts are validated.\<close>

definition valid_part :: "string \<Rightarrow> bool" where
  "valid_part cleaned_part =
     (15 < length cleaned_part
      \<and> (found number_then_word cleaned_part \<or> found po_box cleaned_part
         \<or> found canadian_postal_code cleaned_part))"

definition final_addresses :: "string list \<Rightarrow> string list" where
  "final_addresses compiled =
     concat (map (\<lambda>addr. filter valid_part (map strip (re_split (Rep is_space 10 None) addr)))
       compiled)"

definition address_parts :: "string \<Rightarrow> string list" where
  "address_parts text = final_addresses (group_blocks (collect_candidates (split_nl text) []) [] [])"

subsection \<open>\<open>extract_contacts_from_markdown\<close>\<close>

definition extract_contacts_from_markdown :: "string \<Rightarrow> contacts" where
  "extract_contacts_from_markdown markdown_text =
     (if markdown_text = [] then \<lparr>phone = [], emergency_phone = [], email = [], address = []\<rparr>
      else
        let emergency = fromkeys (cleaned_emergency_phones markdown_text) in
        \<lparr>phone = fromkeys (cleaned_phones markdown_text emergency),
         emergency_phone = emergency,
         email = fromkeys (findall0 email_pattern markdown_text),
         address = fromkeys (address_parts markdown_text)\<rparr>)"

subsection \<open>Order of first appearance\<close>

fun first_index :: "'a list \<Rightarrow> 'a \<Rightarrow> nat" where
  "first_index [] x = 0"
| "first_index (y # ys) x = (if x = y then 0 else Suc (first_index ys x))"

text \<open>\<open>res\<close> holds the entries of \<open>raw\<close> once each, in the order in which they
  first appear in \<open>raw\<close>.\<close>

definition first_seen_order :: "'a list \<Rightarrow> 'a list \<Rightarrow> bool" where
  "first_seen_order raw res =
     (distinct res \<and> set res = set raw
      \<and> sorted_wrt (\<lambda>a b. first_index raw a < first_index raw b) res)"

section \<open>Python values, exceptions and collaborators\<close>

text \<open>
  The orchestrator passes dictionaries parsed from JSON between its steps, so their
  values are modelled dynamically. A dict is an association list in insertion order
  with string keys; a float is a real number or one of the three special values that
  \<open>json.loads\<close> accepts.
\<close>

datatype pyfloat = Finite real | PosInf | NegInf | NaN

datatype pyval =
    PNone
  | PBool bool
  | PInt int
  | PFloat pyfloat
  | PStr string
  | PList "pyval list"
  | PDict "(string \<times> pyval) list"

text \<open>\<open>Failure\<close> is any exception a collaborator raises, with its message.\<close>

datatype exn = KeyError string | TypeError | AttributeError | JSONDecodeError | Failure string

definition and_then :: "exn + 'a \<Rightarrow> ('a \<Rightarrow> exn + 'b) \<Rightarrow> exn + 'b" where
  "and_then r f = (case r of Inl e \<Rightarrow> Inl e | Inr v \<Rightarrow> f v)"

fun truthy :: "pyval \<Rightarrow> bool" where
  "truthy PNone = False"
| "truthy (PBool b) = b"
| "truthy (PInt i) = (i \<noteq> 0)"
| "truthy (PFloat f) = (f \<noteq> Finite 0)"
| "truthy (PStr s) = (s \<noteq> [])"
| "truthy (PList xs) = (xs \<noteq> [])"
| "truthy (PDict d) = (d \<noteq> [])"

text \<open>\<open>d[k] = v\<close> on the association list: an existing key keeps its place.\<close>

fun dset :: "(string \<times> pyval) list \<Rightarrow> string \<Rightarrow> pyval \<Rightarrow> (string \<times> pyval) list" where
  "dset [] k v = [(k, v)]"
| "dset (p # d) k v = (if fst p = k then (k, v) # d else p # dset d k v)"

text \<open>\<open>v.get(k, dflt)\<close>, \<open>v[k] = x\<close> and \<open>v[k]\<close> for a string key \<open>k\<close>, on any value.\<close>

definition get :: "pyval \<Rightarrow> string \<Rightarrow> pyval \<Rightarrow> exn + pyval" where
  "get v k dflt =
     (case v of
        PDict d \<Rightarrow> Inr (case map_of d k of None \<Rightarrow> dflt | Some x \<Rightarrow> x)
      | _ \<Rightarrow> Inl AttributeError)"

definition setitem :: "pyval \<Rightarrow> string \<Rightarrow> pyval \<Rightarrow> exn + pyval" where
  "setitem v k x = (case v of PDict d \<Rightarrow> Inr (PDict (dset d k x)) | _ \<Rightarrow> Inl TypeError)"

definition getitem :: "pyval \<Rightarrow> string \<Rightarrow> exn + pyval" where
  "getitem v k =
     (case v of
        PDict d \<Rightarrow> (case map_of d k of None \<Rightarrow> Inl (KeyError k) | Some x \<Rightarrow> Inr x)
      | _ \<Rightarrow> Inl TypeError)"

text \<open>\<open>x < 0.5\<close>.\<close>

definition lt_half :: "pyval \<Rightarrow> exn + bool" where
  "lt_half v =
     (case v of
        PInt i \<Rightarrow> Inr (i \<le> 0)
      | PBool b \<Rightarrow> Inr (\<not> b)
      | PFloat (Finite r) \<Rightarrow> Inr (r < 1 / 2)
      | PFloat NegInf \<Rightarrow> Inr True
      | PFloat PosInf \<Rightarrow> Inr False
      | PFloat NaN \<Rightarrow> Inr False
      | _ \<Rightarrow> Inl TypeError)"

text \<open>
  What the orchestrator calls and does not define: the inference helper
  \<open>call_cerebras_api\<close> of \<open>utils.ai_helpers\<close>, the three specialist agents, and from
  the Python library \<open>json.loads\<close>, \<open>json.dumps\<close>, \<open>time.time\<close>, \<open>str\<close> on a value
  that is not a string, and \<open>str\<close> on an exception. \<open>update_callback\<close> only reports
  progress; it is taken not to raise and is left out. A failure of a collaborator is
  an \<open>exn\<close>: an exception that \<open>except Exception\<close> catches. The cancellation of the
  task (\<open>asyncio.CancelledError\<close>, which none of the handlers catches) and a raising
  \<open>update_callback\<close> are outside this model; what is proved of \<open>route_query\<close> is proved
  for the runs without them.
\<close>

record env =
  call_cerebras_api :: "string \<Rightarrow> exn + pyval"
  json_loads :: "string \<Rightarrow> exn + pyval"
  json_dumps :: "pyval \<Rightarrow> string"
  time_now :: pyval
  str_of :: "pyval \<Rightarrow> string"
  exn_text :: "exn \<Rightarrow> string"
  rescue_run :: "string \<Rightarrow> pyval \<Rightarrow> exn + pyval"
  resource_run :: "string \<Rightarrow> pyval \<Rightarrow> exn + pyval"
  information_run :: "string \<Rightarrow> pyval \<Rightarrow> exn + pyval"

text \<open>\<open>f"{v}"\<close>.\<close>

definition fmt :: "(pyval \<Rightarrow> string) \<Rightarrow> pyval \<Rightarrow> string" where
  "fmt str v = (case v of PStr s \<Rightarrow> s | PNone \<Rightarrow> ''None'' | _ \<Rightarrow> str v)"

fun show_nat :: "nat \<Rightarrow> string" where
  "show_nat n = (if n < 10 then [char_of (48 + n)] else show_nat (n div 10) @ [char_of (48 + n mod 10)])"

definition nl :: string where
  "nl = [newline]"

definition quote :: string where
  "quote = [CHR 0x22]"

section \<open>The orchestrator (\<open>agents/orchestrator.py\<close>)\<close>

definition LOCAL_EMERGENCY_CONTACTS :: "(string \<times> pyval) list" where
  "LOCAL_EMERGENCY_CONTACTS =
     [(''general'', PDict [(''name'', PStr ''Emergency Services''), (''number'', PStr ''911'')]),
      (''police'', PDict [(''name'', PStr ''Police Department''), (''number'', PStr ''911'')]),
      (''fire'', PDict [(''name'', PStr ''Fire Department''), (''number'', PStr ''911'')]),
      (''medical'', PDict [(''name'', PStr ''Emergency Medical Services''), (''number'', PStr ''911'')]),
      (''poison'', PDict [(''name'', PStr ''Poison Control''), (''number'', PStr ''1-800-222-1222'')]),
      (''disaster'', PDict [(''name'', PStr ''FEMA Helpline''), (''number'', PStr ''1-800-621-3362'')]),
      (''crisis'', PDict [(''name'', PStr ''Crisis Text Line''), (''number'', PStr ''Text HOME to 741741'')])]"

definition general_instructions :: "string list" where
  "general_instructions =
     [''Call 911 for immediate life-threatening emergencies'',
      ''Follow instructions from local authorities'',
      ''Have emergency supplies prepared'',
      ''Stay informed through official channels'',
      ''Help others if you can do so safely'']"

definition fire_instructions :: "string list" where
  "fire_instructions =
     [''Evacuate immediately if authorities order it'',
      ''Cover nose and mouth with a wet cloth'',
      ''Test doorknobs and spaces around doors before opening'',
      ''Use stairs instead of elevators'',
      ''If trapped, signal for help from a window'']"

definition LOCAL_SAFETY_INSTRUCTIONS :: "(string \<times> string list) list" where
  "LOCAL_SAFETY_INSTRUCTIONS =
     [(''flood'',
        [''Move to higher ground immediately'',
         ''Do not walk through moving water'',
         ''Do not drive through flooded areas'',
         ''Follow evacuation orders from authorities'']),
      (''fire'', fire_instructions),
      (''earthquake'',
        [''Drop, cover, and hold on'',
         ''If indoors, stay away from windows'',
         ''If outdoors, move to a clear area away from buildings'',
         ''After shaking stops, check for injuries and damage'',
         ''Be prepared for aftershocks'']),
      (''hurricane'',
        [''Follow evacuation orders from local authorities'',
         ''Secure your home and property'',
         ''Have emergency supplies ready'',
         ''Stay indoors during the storm'',
         ''Avoid flooded areas during and after the storm'']),
      (''tornado'',
        [''Seek shelter in a basement or interior room on the lowest floor'',
         ''Stay away from windows and outside walls'',
         ''Cover your head and neck with arms'',
         ''If caught outside, lie flat in a nearby ditch or depression'',
         ''Do not try to outrun a tornado in a vehicle'']),
      (''general'', general_instructions)]"

subsection \<open>\<open>extract_json_from_string\<close>\<close>

definition brace_slice :: "string \<Rightarrow> string" where
  "brace_slice text =
     (let start_brace = length (takeWhile (\<lambda>c. c \<noteq> CHR ''{'') text);
          end_brace = length text - 1 - length (takeWhile (\<lambda>c. c \<noteq> CHR ''}'') (rev text))
      in take (end_brace + 1 - start_brace) (drop start_brace text))"

text \<open>The same function stands in \<open>orchestrator.py\<close>, \<open>resource_agent.py\<close> and
  \<open>information_agent.py\<close>; \<open>loads\<close> is \<open>json.loads\<close>. \<open>Inr PNone\<close> is the source's
  \<open>return None\<close>; an exception of \<open>json.loads\<close> other than \<open>JSONDecodeError\<close> is not
  caught.\<close>

definition extract_json_from_string :: "(string \<Rightarrow> exn + pyval) \<Rightarrow> string \<Rightarrow> exn + pyval" where
  "extract_json_from_string loads text =
     (if text = [] then Inr PNone
      else if CHR ''{'' \<notin> set text \<or> CHR ''}'' \<notin> set text then Inr PNone
      else (case loads (brace_slice text) of
              Inl e \<Rightarrow> if e = JSONDecodeError then Inr PNone else Inl e
            | Inr v \<Rightarrow> Inr v))"

subsection \<open>\<open>orchestrator_local_process_query\<close>\<close>

definition letters_spaces :: cls where
  "letters_spaces = either is_alpha is_space"

definition in_pattern :: regex where
  "in_pattern = seqs [lit ''in '', grp 1 (plus letters_spaces), Chr (eq CHR '',''), star is_space,
                      grp 2 (plus letters_spaces)]"

definition at_pattern :: regex where
  "at_pattern = seqs [lit ''at '', grp 1 (plus (either is_alnum is_space))]"

definition near_pattern :: regex where
  "near_pattern = seqs [lit ''near '', grp 1 (plus letters_spaces)]"

definition area_pattern :: regex where
  "area_pattern = seqs [grp 1 (plus letters_spaces), lit '' area'']"

text \<open>The loop over \<open>location_patterns\<close>: the first pattern found in the query (as
  typed, not lowered) gives the location.\<close>

definition find_location :: "string \<Rightarrow> string option" where
  "find_location query =
     (case re_search in_pattern query of
        Some st \<Rightarrow> Some (strip (group st 1) @ '', '' @ strip (group st 2))
      | None \<Rightarrow>
     (case re_search at_pattern query of
        Some st \<Rightarrow> Some (strip (group st 1))
      | None \<Rightarrow>
     (case re_search near_pattern query of
        Some st \<Rightarrow> Some (strip (group st 1))
      | None \<Rightarrow>
     (case re_search area_pattern query of
        Some st \<Rightarrow> Some (strip (group st 1))
      | None \<Rightarrow> None))))"

definition any_in :: "string list \<Rightarrow> string \<Rightarrow> bool" where
  "any_in words s = list_ex (\<lambda>w. contains w s) words"

definition crisis_keywords :: "(string \<times> string list) list" where
  "crisis_keywords =
     [(''flood'', [''flood'', ''flooding'', ''water rising'', ''submerged'']),
      (''fire'', [''fire'', ''burning'', ''flames'', ''smoke'', ''wildfire'']),
      (''earthquake'', [''earthquake'', ''tremor'', ''shaking'', ''quake'']),
      (''hurricane'', [''hurricane'', ''cyclone'', ''storm'', ''typhoon'']),
      (''tornado'', [''tornado'', ''twister'', ''funnel cloud'']),
      (''medical'', [''injured'', ''hurt'', ''medical'', ''bleeding'', ''wound'', ''heart attack'',
                     ''stroke'']),
      (''general'', [''emergency'', ''help'', ''danger'', ''disaster'', ''trapped'', ''stuck''])]"

fun detect_crisis :: "(string \<times> string list) list \<Rightarrow> string \<Rightarrow> string" where
  "detect_crisis [] query_lower = ''unknown''"
| "detect_crisis ((crisis, keywords) # table) query_lower =
     (if any_in keywords query_lower then crisis else detect_crisis table query_lower)"

definition strs :: "string list \<Rightarrow> pyval" where
  "strs xs = PList (map PStr xs)"

text \<open>The result dict is written with the values it ends with, in the key order of
  the source's initial dict: a later assignment to a key keeps its place.\<close>

definition orchestrator_local_process_query :: "string \<Rightarrow> pyval" where
  "orchestrator_local_process_query query =
     (let query_lower = lower query;
          location = find_location query;
          needs_medical = any_in [''medical'', ''ambulance'', ''doctor'', ''nurse'', ''injured'',
                                  ''hurt'', ''wound'', ''bleeding'', ''pain''] query_lower;
          needs_evacuation = any_in [''evacuate'', ''evacuation'', ''leave'', ''escape'', ''flee'',
                                     ''get out''] query_lower;
          needs_supplies = any_in [''water'', ''food'', ''supplies'', ''blankets'', ''shelter'',
                                   ''clothing''] query_lower;
          has_dependents = any_in [''child'', ''children'', ''baby'', ''elderly'', ''disabled'',
                                   ''pet'', ''dog'', ''cat''] query_lower;
          urgency =
            (if any_in [''immediately'', ''emergency'', ''urgent'', ''critical'',
                        ''life-threatening'', ''danger'', ''dying'', ''trapped''] query_lower
             then ''high''
             else if any_in [''soon'', ''worried'', ''concerned'', ''help'', ''assistance'',
                             ''need''] query_lower
             then ''medium'' else ''low'')
      in PDict
        [(''original_query'', PStr query),
         (''processed'', PBool True),
         (''location'', case location of None \<Rightarrow> PNone | Some l \<Rightarrow> PStr l),
         (''needs_location_prompt'', PBool (location = None)),
         (''crisis_type'', PStr (detect_crisis crisis_keywords query_lower)),
         (''urgency_level'', PStr urgency),
         (''specific_requests'', PList []),
         (''needs_medical'', PBool needs_medical),
         (''needs_evacuation'', PBool needs_evacuation),
         (''needs_supplies'', PBool needs_supplies),
         (''has_dependents'', PBool has_dependents),
         (''extracted_keywords'',
            strs ((if needs_medical then [''medical''] else [])
                  @ (if needs_evacuation then [''evacuation''] else [])
                  @ (if needs_supplies then [''supplies''] else [])
                  @ (if has_dependents then [''dependents''] else []))),
         (''potential_resources_needed'',
            strs ((if needs_medical then [''medical assistance''] else [])
                  @ (if needs_evacuation then [''evacuation assistance''] else [])
                  @ (if needs_supplies then [''food'', ''water'', ''shelter''] else [])))])"

subsection \<open>\<open>orchestrator_generate_local_response\<close>\<close>

definition rescue_words :: "string list" where
  "rescue_words = [''help'', ''emergency'', ''trapped'', ''hurt'', ''injured'', ''danger'', ''save'',
                   ''rescue'']"

definition resource_words :: "string list" where
  "resource_words = [''where'', ''location'', ''find'', ''need'', ''supplies'', ''resource'',
                     ''contact'', ''shelter'']"

definition local_intent :: "string \<Rightarrow> string" where
  "local_intent query_lower =
     (if any_in rescue_words query_lower then ''rescue''
      else if any_in resource_words query_lower then ''resource''
      else ''information'')"

text \<open>\<open>LOCAL_SAFETY_INSTRUCTIONS.get(crisis_type, LOCAL_SAFETY_INSTRUCTIONS["general"])\<close>:
  a list or a dict is not hashable and makes the lookup raise.\<close>

definition lookup_instructions :: "pyval \<Rightarrow> exn + string list" where
  "lookup_instructions crisis_type =
     (case crisis_type of
        PStr s \<Rightarrow> Inr (case map_of LOCAL_SAFETY_INSTRUCTIONS s of
                          None \<Rightarrow> general_instructions | Some l \<Rightarrow> l)
      | PList xs \<Rightarrow> Inl TypeError
      | PDict d \<Rightarrow> Inl TypeError
      | _ \<Rightarrow> Inr general_instructions)"

text \<open>\<open>for i, instruction in enumerate(safety_instructions, 1)\<close>.\<close>

fun numbered :: "nat \<Rightarrow> string list \<Rightarrow> string" where
  "numbered i [] = []"
| "numbered i (instruction # instructions) =
     show_nat i @ ''. '' @ instruction @ nl @ numbered (Suc i) instructions"

text \<open>\<open>"medical" in crisis_type\<close>.\<close>

definition medical_in :: "pyval \<Rightarrow> exn + bool" where
  "medical_in crisis_type =
     (case crisis_type of
        PStr s \<Rightarrow> Inr (contains ''medical'' s)
      | PList xs \<Rightarrow> Inr (PStr ''medical'' \<in> set xs)
      | PDict d \<Rightarrow> Inr (''medical'' \<in> set (map fst d))
      | _ \<Rightarrow> Inl TypeError)"

definition contact :: "string \<Rightarrow> pyval" where
  "contact k = (case map_of LOCAL_EMERGENCY_CONTACTS k of None \<Rightarrow> PNone | Some c \<Rightarrow> c)"

definition contact_line :: "pyval \<Rightarrow> string" where
  "contact_line c =
     (case c of
        PDict d \<Rightarrow> (case (map_of d ''name'', map_of d ''number'') of
                      (Some (PStr name), Some (PStr number)) \<Rightarrow> ''- '' @ name @ '': '' @ number @ nl
                    | _ \<Rightarrow> [])
      | _ \<Rightarrow> [])"

definition local_note :: string where
  "local_note = nl @ nl @ ''[Note: This response was generated using local emergency protocols due to connection issues.]''"

definition rescue_response :: "(pyval \<Rightarrow> string) \<Rightarrow> pyval \<Rightarrow> pyval \<Rightarrow> exn + (string \<times> pyval)" where
  "rescue_response str crisis_type location =
     and_then (lookup_instructions crisis_type) (\<lambda>safety_instructions.
       Inr (''EMERGENCY RESCUE INFORMATION:'' @ nl @ nl
            @ (if truthy location
               then ''For your location ('' @ fmt str location
                    @ ''), please follow these safety instructions:'' @ nl @ nl
               else ''Please follow these general safety instructions:'' @ nl @ nl)
            @ numbered 1 safety_instructions
            @ nl @ ''Contact emergency services immediately: 911'',
            PDict [(''emergency_type'', crisis_type),
                   (''location'', location),
                   (''safety_instructions'', strs safety_instructions),
                   (''emergency_contact'', contact ''general'')]))"

definition resource_response ::
  "(pyval \<Rightarrow> string) \<Rightarrow> string \<Rightarrow> pyval \<Rightarrow> pyval \<Rightarrow> pyval \<Rightarrow> exn + (string \<times> pyval)" where
  "resource_response str query_lower query_info crisis_type location =
     and_then
       (if crisis_type = PStr ''fire'' then Inr (contact ''fire'')
        else
          and_then (get query_info ''needs_medical'' (PBool False)) (\<lambda>needs_medical.
          and_then (if truthy needs_medical then Inr True else medical_in crisis_type) (\<lambda>medical.
            Inr (if medical then contact ''medical'' else contact ''general''))))
       (\<lambda>first_contact.
          let relevant_contacts =
                [first_contact]
                @ (if contains ''poison'' query_lower then [contact ''poison''] else [])
                @ (if contains ''disaster'' query_lower then [contact ''disaster''] else [])
                @ (if contains ''crisis'' query_lower \<or> contains ''mental'' query_lower
                   then [contact ''crisis''] else [])
          in Inr (''EMERGENCY RESOURCE INFORMATION:'' @ nl @ nl
                  @ (if truthy location
                     then ''For resources in '' @ fmt str location
                          @ '', please contact the following services:'' @ nl @ nl
                     else ''Please contact the following emergency services:'' @ nl @ nl)
                  @ concat (map contact_line relevant_contacts),
                  PDict [(''resource_type'', crisis_type),
                         (''location'', location),
                         (''emergency_contacts'', PList relevant_contacts)]))"

definition information_response :: "(pyval \<Rightarrow> string) \<Rightarrow> pyval \<Rightarrow> pyval \<Rightarrow> exn + (string \<times> pyval)" where
  "information_response str crisis_type location =
     and_then (lookup_instructions crisis_type) (\<lambda>safety_instructions.
       Inr (''EMERGENCY INFORMATION:'' @ nl @ nl
            @ (if truthy location
               then ''Information for '' @ fmt str crisis_type @ '' emergency in ''
                    @ fmt str location @ '':'' @ nl @ nl
               else ''General information for '' @ fmt str crisis_type @ '' emergency:'' @ nl @ nl)
            @ numbered 1 safety_instructions
            @ nl @ ''For more information, contact: Emergency Services at 911'',
            PDict [(''information_type'', crisis_type),
                   (''location'', location),
                   (''safety_instructions'', strs safety_instructions)]))"

text \<open>The function takes the query, the query-info and Python's \<open>str\<close>; it has no
  access to the collaborators of \<^typ>\<open>env\<close>.\<close>

definition orchestrator_generate_local_response ::
  "(pyval \<Rightarrow> string) \<Rightarrow> string \<Rightarrow> pyval \<Rightarrow> exn + pyval" where
  "orchestrator_generate_local_response str query query_info =
     (let query_lower = lower query in
      and_then (get query_info ''crisis_type'' (PStr ''general'')) (\<lambda>crisis_type.
      and_then (get query_info ''location'' (PStr ''your area'')) (\<lambda>location.
        let intent = local_intent query_lower in
        and_then
          (if intent = ''rescue'' then rescue_response str crisis_type location
           else if intent = ''resource''
           then resource_response str query_lower query_info crisis_type location
           else information_response str crisis_type location)
          (\<lambda>(response, structured_data).
             Inr (PDict [(''response'', PStr (response @ local_note)),
                         (''intent'', PStr intent),
                         (''query_info'', query_info),
                         (''agent_data'', structured_data),
                         (''used_local_fallback'', PBool True)])))))"

subsection \<open>\<open>cerebras_llama_call\<close>\<close>

definition rescue_default :: string where
  "rescue_default = ''{'' @ quote @ ''intent'' @ quote @ '': '' @ quote @ ''rescue'' @ quote
     @ '', '' @ quote @ ''confidence'' @ quote @ '': 90, '' @ quote @ ''reasoning'' @ quote @ '': ''
     @ quote @ ''Error occurred, defaulting to rescue for safety'' @ quote @ ''}''"

definition resource_default :: string where
  "resource_default = ''{'' @ quote @ ''intent'' @ quote @ '': '' @ quote @ ''resource'' @ quote
     @ '', '' @ quote @ ''confidence'' @ quote @ '': 70, '' @ quote @ ''reasoning'' @ quote @ '': ''
     @ quote @ ''Error occurred, defaulting to resource based on keywords'' @ quote @ ''}''"

definition information_default :: string where
  "information_default = ''{'' @ quote @ ''intent'' @ quote @ '': '' @ quote @ ''information''
     @ quote @ '', '' @ quote @ ''confidence'' @ quote @ '': 50, '' @ quote @ ''reasoning'' @ quote
     @ '': '' @ quote @ ''Error occurred, defaulting to information'' @ quote @ ''}''"

text \<open>The body of the \<open>try\<close>: a reply that is not a string has no \<open>strip\<close>.\<close>

definition llama_call_body :: "env \<Rightarrow> string \<Rightarrow> exn + string" where
  "llama_call_body env prompt =
     (let modified_prompt =
            (if \<not> contains ''JSON'' prompt \<and> \<not> contains ''json'' prompt
             then prompt @ nl @ nl @ ''Please respond with a valid JSON object.''
             else prompt)
      in and_then (call_cerebras_api env modified_prompt) (\<lambda>reply.
           case reply of
             PStr response_text \<Rightarrow>
               if \<not> starts_with ''{'' (strip response_text)
               then and_then (extract_json_from_string (json_loads env) response_text) (\<lambda>extracted_json.
                      if truthy extracted_json then Inr (json_dumps env extracted_json)
                      else Inr response_text)
               else Inr response_text
           | _ \<Rightarrow> Inl AttributeError))"

definition cerebras_llama_call :: "env \<Rightarrow> string \<Rightarrow> string" where
  "cerebras_llama_call env prompt =
     (case llama_call_body env prompt of
        Inr text \<Rightarrow> text
      | Inl e \<Rightarrow>
          if contains ''rescue'' (lower prompt) \<or> contains ''emergency'' (lower prompt)
          then rescue_default
          else if contains ''resource'' (lower prompt) \<or> contains ''contact'' (lower prompt)
          then resource_default
          else information_default)"

subsection \<open>\<open>process_query\<close>\<close>

definition process_prompt_head :: string where
  "process_prompt_head =
     [CHR 0x0A] @ ''    Analyze the following emergency query and extract key in''
     @ ''formation.'' @ [CHR 0x0A]
     @ ''    Your response MUST be a valid JSON object with EXACTLY t''
     @ ''hese fields and no additional text:'' @ [CHR 0x0A] @ ''    {'' @ [CHR 0x0A]
     @ ''        '' @ [CHR 0x22] @ ''location'' @ [CHR 0x22] @ '': '' @ [CHR 0x22]
     @ ''Geographic location mentioned (be as specific as possible, o'' @ ''r null if none)''
     @ [CHR 0x22] @ '','' @ [CHR 0x0A] @ ''        '' @ [CHR 0x22] @ ''coordinates''
     @ [CHR 0x22] @ '': {'' @ [CHR 0x0A] @ ''            '' @ [CHR 0x22] @ ''latitude''
     @ [CHR 0x22] @ '': '' @ [CHR 0x22] @ ''latitude if explicitly mentioned (or null)''
     @ [CHR 0x22] @ '','' @ [CHR 0x0A] @ ''            '' @ [CHR 0x22] @ ''longitude''
     @ [CHR 0x22] @ '': '' @ [CHR 0x22] @ ''longitude if explicitly mentioned (or null)''
     @ [CHR 0x22, CHR 0x0A] @ ''        },'' @ [CHR 0x0A] @ ''        '' @ [CHR 0x22]
     @ ''location_confidence'' @ [CHR 0x22]
     @ '': Number between 0-1 indicating confidence in location detec'' @ ''tion,''
     @ [CHR 0x0A] @ ''        '' @ [CHR 0x22] @ ''needs_location_prompt'' @ [CHR 0x22]
     @ '': Boolean true if location is missing, vague or needed for p'' @ ''roper response,''
     @ [CHR 0x0A] @ ''        '' @ [CHR 0x22] @ ''crisis_type'' @ [CHR 0x22] @ '': ''
     @ [CHR 0x22] @ ''Type of emergency or disaster (flood, fire, earthquake, etc.'' @ '')''
     @ [CHR 0x22] @ '','' @ [CHR 0x0A] @ ''        '' @ [CHR 0x22] @ ''urgency_level''
     @ [CHR 0x22] @ '': '' @ [CHR 0x22] @ ''high'' @ [CHR 0x22] @ '', '' @ [CHR 0x22]
     @ ''medium'' @ [CHR 0x22] @ '', or '' @ [CHR 0x22] @ ''low'' @ [CHR 0x22] @ '',''
     @ [CHR 0x0A] @ ''        '' @ [CHR 0x22] @ ''specific_requests'' @ [CHR 0x22] @ '': [''
     @ [CHR 0x22] @ ''List of specific things being requested'' @ [CHR 0x22] @ ''],''
     @ [CHR 0x0A] @ ''        '' @ [CHR 0x22] @ ''needs_medical'' @ [CHR 0x22]
     @ '': Boolean true if medical assistance is needed,'' @ [CHR 0x0A] @ ''        ''
     @ [CHR 0x22] @ ''needs_evacuation'' @ [CHR 0x22]
     @ '': Boolean true if evacuation assistance is needed,'' @ [CHR 0x0A] @ ''        ''
     @ [CHR 0x22] @ ''needs_supplies'' @ [CHR 0x22]
     @ '': Boolean true if food/water/supplies are needed,'' @ [CHR 0x0A] @ ''        ''
     @ [CHR 0x22] @ ''has_dependents'' @ [CHR 0x22]
     @ '': Boolean true if query mentions children, elderly, or other''
     @ ''s who need help,'' @ [CHR 0x0A] @ ''        '' @ [CHR 0x22] @ ''extracted_keywords''
     @ [CHR 0x22] @ '': ['' @ [CHR 0x22] @ ''List of key terms extracted from the query''
     @ [CHR 0x22] @ ''],'' @ [CHR 0x0A] @ ''        '' @ [CHR 0x22]
     @ ''potential_resources_needed'' @ [CHR 0x22] @ '': ['' @ [CHR 0x22]
     @ ''List of resources that might be needed based on the crisis'' @ [CHR 0x22] @ '']''
     @ [CHR 0x0A] @ ''    }'' @ [CHR 0x0A] @ ''    '' @ [CHR 0x0A] @ ''    Query: ''
     @ [CHR 0x22]"

definition process_prompt_tail :: string where
  "process_prompt_tail =
     [CHR 0x22, CHR 0x0A] @ ''    '' @ [CHR 0x0A] @ ''    JSON Response:'' @ [CHR 0x0A]
     @ ''    ''"

definition process_prompt :: "string \<Rightarrow> string" where
  "process_prompt query = process_prompt_head @ query @ process_prompt_tail"

text \<open>The metadata and the location handling, once \<open>extracted_info\<close> is at hand.\<close>

definition finish_info :: "env \<Rightarrow> string \<Rightarrow> pyval \<Rightarrow> exn + pyval" where
  "finish_info env query extracted_info =
     and_then (setitem extracted_info ''original_query'' (PStr query)) (\<lambda>i1.
     and_then (setitem i1 ''processed'' (PBool True)) (\<lambda>i2.
     and_then (setitem i2 ''timestamp'' (time_now env)) (\<lambda>i3.
     and_then (get i3 ''location'' PNone) (\<lambda>location.
       if \<not> truthy location \<or> location = PStr ''null''
       then and_then (setitem i3 ''location'' PNone) (\<lambda>i4.
              setitem i4 ''needs_location_prompt'' (PBool True))
       else and_then (get i3 ''location_confidence'' (PInt 0)) (\<lambda>confidence.
            and_then (lt_half confidence) (\<lambda>low.
              if low then setitem i3 ''needs_location_prompt'' (PBool True) else Inr i3))))))"

text \<open>The body of the outer \<open>try\<close>.\<close>

definition process_query_body :: "env \<Rightarrow> string \<Rightarrow> exn + pyval" where
  "process_query_body env query =
     (let response_text = cerebras_llama_call env (process_prompt query) in
      case json_loads env response_text of
        Inr extracted_info \<Rightarrow> finish_info env query extracted_info
      | Inl e \<Rightarrow>
          if e = JSONDecodeError
          then and_then (extract_json_from_string (json_loads env) response_text) (\<lambda>extracted_info.
                 if \<not> truthy extracted_info then Inr (orchestrator_local_process_query query)
                 else finish_info env query extracted_info)
          else Inl e)"

text \<open>\<open>except Exception\<close> turns every exception of the body into the local result, so
  the function always returns.\<close>

definition process_query :: "env \<Rightarrow> string \<Rightarrow> exn + pyval" where
  "process_query env query =
     (case process_query_body env query of
        Inr info \<Rightarrow> Inr info
      | Inl e \<Rightarrow> Inr (orchestrator_local_process_query query))"

subsection \<open>\<open>route_query\<close>\<close>

definition intent_prompt_head :: string where
  "intent_prompt_head =
     [CHR 0x0A] @ ''    Analyze the following emergency query and classify its p''
     @ ''rimary intent as one of these categories.'' @ [CHR 0x0A]
     @ ''    Return your answer as a JSON object with the following s'' @ ''tructure:''
     @ [CHR 0x0A] @ ''    {'' @ [CHR 0x0A] @ ''        '' @ [CHR 0x22] @ ''intent''
     @ [CHR 0x22] @ '': '' @ [CHR 0x22] @ ''rescue|resource|information'' @ [CHR 0x22]
     @ '','' @ [CHR 0x0A] @ ''        '' @ [CHR 0x22] @ ''confidence'' @ [CHR 0x22]
     @ '': 0-100,'' @ [CHR 0x0A] @ ''        '' @ [CHR 0x22] @ ''reasoning'' @ [CHR 0x22]
     @ '': '' @ [CHR 0x22] @ ''brief explanation of classification'' @ [CHR 0x22, CHR 0x0A]
     @ ''    }'' @ [CHR 0x0A] @ ''    '' @ [CHR 0x0A] @ ''    Where:'' @ [CHR 0x0A]
     @ ''    - '' @ [CHR 0x22] @ ''rescue'' @ [CHR 0x22]
     @ '': User needs immediate life-saving assistance'' @ [CHR 0x0A] @ ''    - ''
     @ [CHR 0x22] @ ''resource'' @ [CHR 0x22]
     @ '': User needs to locate specific resources/contacts'' @ [CHR 0x0A] @ ''    - ''
     @ [CHR 0x22] @ ''information'' @ [CHR 0x22]
     @ '': User is seeking general information or status updates'' @ [CHR 0x0A] @ ''    ''
     @ [CHR 0x0A] @ ''    Query: '' @ [CHR 0x22]"

definition intent_prompt_location :: string where
  "intent_prompt_location =
     [CHR 0x22, CHR 0x0A] @ ''    Location: ''"

definition intent_prompt_crisis :: string where
  "intent_prompt_crisis =
     [CHR 0x0A] @ ''    Crisis Type: ''"

definition intent_prompt_tail :: string where
  "intent_prompt_tail =
     [CHR 0x0A] @ ''    '' @ [CHR 0x0A] @ ''    JSON Response:'' @ [CHR 0x0A] @ ''    ''"

definition error_message_head :: string where
  "error_message_head =
     ''I apologize, but I encountered an error while processing you'' @ ''r request: ''"

definition error_message_tail :: string where
  "error_message_tail =
     ''. '' @ [CHR 0x0A] @ ''            '' @ [CHR 0x0A]
     @ ''            If this is a life-threatening emergency, please ''
     @ ''immediately contact your local emergency services:'' @ [CHR 0x0A]
     @ ''            - In most countries, dial 911 or 112 for emergen'' @ ''cy services''
     @ [CHR 0x0A] @ ''            - If possible, provide clear details about your ''
     @ ''location and situation'' @ [CHR 0x0A] @ ''            '' @ [CHR 0x0A]
     @ ''            Please try again with your request in a moment.''"

definition intent_prompt :: "env \<Rightarrow> string \<Rightarrow> pyval \<Rightarrow> pyval \<Rightarrow> string" where
  "intent_prompt env query location crisis_type =
     intent_prompt_head @ query @ intent_prompt_location @ fmt (str_of env) location
     @ intent_prompt_crisis @ fmt (str_of env) crisis_type @ intent_prompt_tail"

definition intent_record :: "string \<Rightarrow> int \<Rightarrow> string \<Rightarrow> pyval" where
  "intent_record intent confidence reasoning =
     PDict [(''intent'', PStr intent), (''confidence'', PInt confidence),
            (''reasoning'', PStr reasoning)]"

text \<open>Step 2. The inner \<open>try\<close> catches \<open>JSONDecodeError\<close> and \<open>TypeError\<close> and keeps the
  defaults; any other exception reaches the outer \<open>except\<close>, which classifies by
  keywords. The result is \<open>intent\<close> and \<open>intent_data\<close>.\<close>

definition classify_intent :: "env \<Rightarrow> string \<Rightarrow> string \<Rightarrow> pyval \<times> pyval" where
  "classify_intent env query prompt =
     (let defaults = (PStr ''information'',
                      intent_record ''information'' 60 ''Default classification due to API issue'');
          intent_response = cerebras_llama_call env prompt;
          inner =
            (case json_loads env intent_response of
               Inl e \<Rightarrow> if e = JSONDecodeError \<or> e = TypeError then Inr defaults else Inl e
             | Inr intent_data \<Rightarrow>
                 (case get intent_data ''intent'' (PStr ''information'') of
                    Inl e \<Rightarrow> if e = JSONDecodeError \<or> e = TypeError then Inr defaults else Inl e
                  | Inr intent \<Rightarrow> Inr (intent, intent_data)))
      in case inner of
           Inr r \<Rightarrow> r
         | Inl intent_error \<Rightarrow>
             if any_in rescue_words (lower query)
             then (PStr ''rescue'',
                   intent_record ''rescue'' 70 ''Local classification based on emergency keywords'')
             else if any_in resource_words (lower query)
             then (PStr ''resource'',
                   intent_record ''resource'' 70 ''Local classification based on resource keywords'')
             else (PStr ''information'',
                   intent_record ''information'' 70
                     ''Local classification defaulting to information''))"

definition dispatch :: "env \<Rightarrow> string \<Rightarrow> string \<Rightarrow> pyval \<Rightarrow> exn + pyval" where
  "dispatch env intent query query_info =
     (if intent = ''rescue'' then rescue_run env query query_info
      else if intent = ''resource'' then resource_run env query query_info
      else information_run env query query_info)"

text \<open>The handler of \<open>except Exception as agent_error\<close>, after \<open>query_info\<close> has been
  recomputed.\<close>

definition agent_error_response :: "env \<Rightarrow> string \<Rightarrow> string \<Rightarrow> pyval \<Rightarrow> exn + pyval" where
  "agent_error_response env query intent query_info =
     and_then (orchestrator_generate_local_response (str_of env) query query_info) (\<lambda>r.
     and_then (setitem r ''used_local_fallback'' (PBool True)) (\<lambda>r1.
     and_then (setitem r1 ''intent'' (PStr intent)) (\<lambda>r2.
       setitem r2 ''query_info'' query_info)))"

text \<open>The handler of the outer \<open>except Exception as e\<close>: a second local response, and
  when that raises too, the fixed error message.\<close>

definition last_resort :: "env \<Rightarrow> string \<Rightarrow> string \<Rightarrow> pyval \<Rightarrow> exn \<Rightarrow> pyval" where
  "last_resort env query intent query_info e =
     (let query_info' = (if \<not> truthy query_info then orchestrator_local_process_query query
                         else query_info);
          retry =
            and_then (orchestrator_generate_local_response (str_of env) query query_info') (\<lambda>r.
            and_then (setitem r ''intent'' (PStr intent)) (\<lambda>r1.
            and_then (setitem r1 ''query_info'' query_info') (\<lambda>r2.
            and_then (setitem r2 ''used_local_fallback'' (PBool True)) (\<lambda>r3.
              setitem r3 ''error'' (PStr (exn_text env e))))))
      in case retry of
           Inr local_response \<Rightarrow> local_response
         | Inl fallback_error \<Rightarrow>
             PDict [(''response'',
                       PStr (error_message_head @ exn_text env e @ error_message_tail)),
                    (''intent'', PStr intent),
                    (''query_info'', query_info'),
                    (''error'', PStr (exn_text env e @ ''. Fallback also failed: ''
                                      @ exn_text env fallback_error)),
                    (''is_error'', PBool True),
                    (''used_local_fallback'', PBool False)])"

text \<open>\<open>response.get("response") if isinstance(response, dict) else response\<close> and its
  twin for \<open>"data"\<close>.\<close>

definition response_text_of :: "pyval \<Rightarrow> pyval" where
  "response_text_of response =
     (case response of
        PDict d \<Rightarrow> (case map_of d ''response'' of None \<Rightarrow> PNone | Some v \<Rightarrow> v)
      | _ \<Rightarrow> response)"

definition agent_data_of :: "pyval \<Rightarrow> pyval" where
  "agent_data_of response =
     (case response of
        PDict d \<Rightarrow> (case map_of d ''data'' of None \<Rightarrow> PNone | Some v \<Rightarrow> v)
      | _ \<Rightarrow> PNone)"

text \<open>Step 3.\<close>

definition route_to_agent :: "env \<Rightarrow> string \<Rightarrow> string \<Rightarrow> bool \<Rightarrow> pyval \<Rightarrow> pyval" where
  "route_to_agent env query intent use_local_fallback query_info =
     (case dispatch env intent query query_info of
        Inr response \<Rightarrow>
          PDict [(''response'', response_text_of response),
                 (''intent'', PStr intent),
                 (''query_info'', query_info),
                 (''agent_data'', agent_data_of response),
                 (''used_local_fallback'', PBool use_local_fallback)]
      | Inl agent_error \<Rightarrow>
          let query_info' = (if \<not> use_local_fallback then orchestrator_local_process_query query
                             else query_info)
          in (case agent_error_response env query intent query_info' of
                Inr local_response \<Rightarrow> local_response
              | Inl e \<Rightarrow> last_resort env query intent query_info' e))"

definition location_request :: "pyval \<Rightarrow> pyval" where
  "location_request query_info =
     PDict [(''response'', PStr (''I need to know your location to help with this request. ''
                                 @ ''Can you share your current location?'')),
            (''needs_location'', PBool True),
            (''query_info'', query_info),
            (''intent'', PStr ''pending_location'')]"

text \<open>
  \<open>Inl\<close> is an exception that leaves \<open>route_query\<close>. The status line after step 2
  calls \<open>intent.upper()\<close> and \<open>intent_data.get\<close> outside of every \<open>try\<close>.
\<close>

definition route_query :: "env \<Rightarrow> string \<Rightarrow> exn + pyval" where
  "route_query env query =
     (let (use_local_fallback, query_info) =
            (case process_query env query of
               Inr info \<Rightarrow> (False, info)
             | Inl process_error \<Rightarrow> (True, orchestrator_local_process_query query))
      in if use_local_fallback \<and> truthy query_info
         then orchestrator_generate_local_response (str_of env) query query_info
         else
           and_then (get query_info ''needs_location_prompt'' (PBool False)) (\<lambda>needs_prompt.
           and_then (get query_info ''location'' PNone) (\<lambda>location.
             if truthy needs_prompt \<and> \<not> truthy location then Inr (location_request query_info)
             else
               and_then (get query_info ''location'' (PStr ''Unknown'')) (\<lambda>shown_location.
               and_then (get query_info ''crisis_type'' (PStr ''Unknown'')) (\<lambda>shown_crisis.
                 let (intent, intent_data) =
                       classify_intent env query
                         (intent_prompt env query shown_location shown_crisis)
                 in case intent of
                      PStr intent_name \<Rightarrow>
                        and_then (get intent_data ''confidence'' (PStr ''unknown'')) (\<lambda>confidence.
                          Inr (route_to_agent env query intent_name use_local_fallback query_info))
                    | _ \<Rightarrow> Inl AttributeError)))))"

section \<open>The resource agent, as the rescue agent calls it (\<open>agents/resource_agent.py\<close>)\<close>

text \<open>
  The collaborators of the two agents: the search client \<open>exa\<close>, the crawler and the
  resource agent's own inference client (each \<open>None\<close> when its package or key is
  missing), the rescue agent's \<open>client\<close> and \<open>call_cerebras_api\<close>, and from the Python
  library \<open>json.loads\<close>, \<open>json.dumps\<close>, \<open>time.time\<close>, \<open>str\<close> on values and on
  exceptions, and \<open>str.upper\<close> (which leaves the code points below 256 on some
  characters). A search hit is the title, the URL and the text of a result, the text
  absent when the result has none.
\<close>

record agents =
  exa :: "(string \<Rightarrow> nat \<Rightarrow> exn + (string \<times> string \<times> string option) list) option"
  crawler :: "(string \<Rightarrow> exn + string) option"
  resource_client :: "(string \<Rightarrow> exn + pyval) option"
  rescue_client :: bool
  cerebras :: "string \<Rightarrow> exn + pyval"
  loads :: "string \<Rightarrow> exn + pyval"
  dumps :: "pyval \<Rightarrow> string"
  clock :: pyval
  to_str :: "pyval \<Rightarrow> string"
  error_text :: "exn \<Rightarrow> string"
  to_upper :: "string \<Rightarrow> string"

text \<open>One entry of \<open>web_results\<close>: the dict with \<open>title\<close>, \<open>url\<close> and \<open>snippet\<close>.\<close>

record web_result =
  title :: string
  url :: string
  snippet :: string

text \<open>\<open>search_web\<close>: every failure inside gives the empty list.\<close>

definition search_web :: "agents \<Rightarrow> string \<Rightarrow> nat \<Rightarrow> web_result list" where
  "search_web a query num_results =
     (case exa a of
        None \<Rightarrow> []
      | Some search_and_contents \<Rightarrow>
          (case search_and_contents query num_results of
             Inl e \<Rightarrow> []
           | Inr hits \<Rightarrow>
               map (\<lambda>(t, u, text). \<lparr>title = t, url = u,
                      snippet = (case text of None \<Rightarrow> [] | Some s \<Rightarrow> take 200 s)\<rparr>) hits))"

text \<open>\<open>ask_ai\<close> of the resource agent: \<open>None\<close> without a client or on any failure.\<close>

definition resource_ask_ai :: "agents \<Rightarrow> string \<Rightarrow> pyval" where
  "resource_ask_ai a prompt =
     (case resource_client a of
        None \<Rightarrow> PNone
      | Some create \<Rightarrow> (case create prompt of Inl e \<Rightarrow> PNone | Inr content \<Rightarrow> content))"

text \<open>\<open>extract_json_from_string\<close> on a value that need not be a string: a value that
  is true and not a string has no \<open>find\<close>.\<close>

definition extract_json_from_value :: "(string \<Rightarrow> exn + pyval) \<Rightarrow> pyval \<Rightarrow> exn + pyval" where
  "extract_json_from_value parse v =
     (case v of
        PStr s \<Rightarrow> extract_json_from_string parse s
      | _ \<Rightarrow> if truthy v then Inl AttributeError else Inr PNone)"

definition contacts_dict :: "contacts \<Rightarrow> pyval" where
  "contacts_dict c =
     PDict [(''phone'', strs (phone c)), (''emergency_phone'', strs (emergency_phone c)),
            (''email'', strs (email c)), (''address'', strs (address c))]"

definition error_dict :: "string \<Rightarrow> pyval" where
  "error_dict message = PDict [(''error'', PStr message)]"

definition ai_extraction_prompt_0 :: string where
  "ai_extraction_prompt_0 =
     [CHR 0x0A] @ ''                    Analyze the following webpage content fo''
     @ ''r contact information.'' @ [CHR 0x0A] @ ''                    Explicitly look for:''
     @ [CHR 0x0A] @ ''                    - Standard Phone Number(s)'' @ [CHR 0x0A]
     @ ''                    - Emergency Contact Number(s) (look for '' @ ''terms like ''
     @ [CHR 0x27] @ ''emergency'' @ [CHR 0x27] @ '', '' @ [CHR 0x27] @ ''hotline''
     @ [CHR 0x27] @ '', '' @ [CHR 0x27] @ ''urgent'' @ [CHR 0x27] @ '', '' @ [CHR 0x27]
     @ ''24/7'' @ [CHR 0x27] @ '', '' @ [CHR 0x27] @ ''rescue'' @ [CHR 0x27] @ '' nearby)''
     @ [CHR 0x0A] @ ''                    - Email Address(es)'' @ [CHR 0x0A]
     @ ''                    - Physical Address(es)'' @ [CHR 0x0A] @ ''                    ''
     @ [CHR 0x0A] @ ''                    Format the output strictly as a JSON obj''
     @ ''ect with keys '' @ [CHR 0x22] @ ''phone'' @ [CHR 0x22] @ '' (list of strings), ''
     @ [CHR 0x0A] @ ''                    '' @ [CHR 0x22] @ ''emergency_phone'' @ [CHR 0x22]
     @ '' (list of strings), '' @ [CHR 0x22] @ ''email'' @ [CHR 0x22]
     @ '' (list of strings), and '' @ [CHR 0x0A] @ ''                    '' @ [CHR 0x22]
     @ ''address'' @ [CHR 0x22]
     @ '' (list of strings). If no information is found for a categor'' @ ''y, ''
     @ [CHR 0x0A] @ ''                    the value should be an empty list [].''
     @ [CHR 0x0A] @ ''                    '' @ [CHR 0x0A]
     @ ''                    Return ONLY the JSON object and nothing '' @ ''else.''
     @ [CHR 0x0A] @ ''                    '' @ [CHR 0x0A]
     @ ''                    Webpage Content from ''"

definition ai_extraction_prompt_1 :: string where
  "ai_extraction_prompt_1 =
     '':'' @ [CHR 0x0A] @ ''                    ''"

definition ai_extraction_prompt_2 :: string where
  "ai_extraction_prompt_2 =
     ''  # Pass a significant portion to the AI'' @ [CHR 0x0A] @ ''                    ''"

definition ai_extraction_prompt :: "string \<Rightarrow> string \<Rightarrow> string" where
  "ai_extraction_prompt u markdown_content =
     ai_extraction_prompt_0 @ u @ ai_extraction_prompt_1 @ take 6000 markdown_content
     @ ai_extraction_prompt_2"

text \<open>The body of the \<open>try\<close> of \<open>crawl_and_extract_contacts_HYBRID\<close>, with the crawler
  at hand; an empty text is a crawl without content.\<close>

definition hybrid_body :: "agents \<Rightarrow> (string \<Rightarrow> exn + string) \<Rightarrow> string \<Rightarrow> exn + pyval" where
  "hybrid_body a arun u =
     and_then (arun u) (\<lambda>markdown_content.
       if markdown_content = [] then Inr (error_dict ''No content found'')
       else
         let contacts = extract_contacts_from_markdown markdown_content in
         if phone contacts = [] \<and> email contacts = [] \<and> emergency_phone contacts = []
            \<and> resource_client a \<noteq> None
         then
           let ai_extracted_str = resource_ask_ai a (ai_extraction_prompt u markdown_content) in
           if truthy ai_extracted_str
           then and_then (extract_json_from_value (loads a) ai_extracted_str) (\<lambda>ai_extracted.
                  if truthy ai_extracted then Inr ai_extracted else Inr (contacts_dict contacts))
           else Inr (contacts_dict contacts)
         else Inr (contacts_dict contacts))"

definition crawl_and_extract_contacts_HYBRID :: "agents \<Rightarrow> string \<Rightarrow> pyval" where
  "crawl_and_extract_contacts_HYBRID a u =
     (case crawler a of
        None \<Rightarrow> error_dict ''crawl4ai not installed''
      | Some arun \<Rightarrow>
          (case hybrid_body a arun u of
             Inr v \<Rightarrow> v
           | Inl e \<Rightarrow> error_dict (error_text a e)))"

text \<open>\<open>crawl_and_extract_contacts_all_urls\<close>, which is what \<open>run\<close> of the resource agent
  returns for a list of URLs and \<open>is_subroutine=True\<close>: the dict from URL to contacts.\<close>

definition crawl_and_extract_contacts_all_urls :: "agents \<Rightarrow> string list \<Rightarrow> (string \<times> pyval) list" where
  "crawl_and_extract_contacts_all_urls a urls =
     foldl (\<lambda>by_url u. dset by_url u (crawl_and_extract_contacts_HYBRID a u)) [] urls"

section \<open>The rescue agent (\<open>agents/rescue_agent.py\<close>)\<close>

text \<open>\<open>k in v\<close> for a string \<open>k\<close>, \<open>for x in v\<close>, and \<open>v[:2]\<close> (on a dict the last raises
  \<open>TypeError\<close>, from Python 3.12 on \<open>KeyError\<close>).\<close>

definition str_in :: "string \<Rightarrow> pyval \<Rightarrow> exn + bool" where
  "str_in k v =
     (case v of
        PStr s \<Rightarrow> Inr (contains k s)
      | PList xs \<Rightarrow> Inr (PStr k \<in> set xs)
      | PDict d \<Rightarrow> Inr (k \<in> set (map fst d))
      | _ \<Rightarrow> Inl TypeError)"

definition iterate :: "pyval \<Rightarrow> exn + pyval list" where
  "iterate v =
     (case v of
        PList xs \<Rightarrow> Inr xs
      | PStr s \<Rightarrow> Inr (map (\<lambda>c. PStr [c]) s)
      | PDict d \<Rightarrow> Inr (map (\<lambda>p. PStr (fst p)) d)
      | _ \<Rightarrow> Inl TypeError)"

definition first_two :: "pyval \<Rightarrow> exn + pyval" where
  "first_two v =
     (case v of
        PList xs \<Rightarrow> Inr (PList (take 2 xs))
      | PStr s \<Rightarrow> Inr (PStr (take 2 s))
      | _ \<Rightarrow> Inl TypeError)"

text \<open>A loop whose body may raise: the results in order, or the first exception.\<close>

fun for_each :: "('a \<Rightarrow> exn + 'b) \<Rightarrow> 'a list \<Rightarrow> exn + 'b list" where
  "for_each f [] = Inr []"
| "for_each f (x # xs) = and_then (f x) (\<lambda>y. and_then (for_each f xs) (\<lambda>ys. Inr (y # ys)))"

text \<open>\<open>"\n".join(xs)\<close>: every item has to be a string.\<close>

fun join_nl :: "pyval list \<Rightarrow> exn + string" where
  "join_nl [] = Inr []"
| "join_nl [x] = (case x of PStr s \<Rightarrow> Inr s | _ \<Rightarrow> Inl TypeError)"
| "join_nl (x # y # ys) =
     (case x of
        PStr s \<Rightarrow> and_then (join_nl (y # ys)) (\<lambda>t. Inr (s @ nl @ t))
      | _ \<Rightarrow> Inl TypeError)"

subsection \<open>\<open>ask_ai\<close>\<close>

definition rescue_ask_ai :: "agents \<Rightarrow> string \<Rightarrow> exn + pyval" where
  "rescue_ask_ai a prompt =
     and_then (cerebras a prompt) (\<lambda>response.
       if truthy response then
         (case response of
            PStr s \<Rightarrow>
              if starts_with ''Simulated response for:'' s then
                (if contains ''location'' (lower prompt) then Inr (PStr ''Punjab, India'')
                 else if contains ''extract'' (lower prompt) \<and> contains ''coordinate'' (lower prompt)
                 then Inr (PStr ''31.6340, 74.8723'')
                 else if contains ''safety'' (lower prompt) \<or> contains ''instruction'' (lower prompt)
                 then Inr (PStr (''Seek higher ground immediately. ''
                                 @ ''Avoid walking or driving through flood waters.''))
                 else Inr response)
              else Inr response
          | _ \<Rightarrow> Inl AttributeError)
       else Inr response)"

subsection \<open>\<open>get_weather_alerts\<close>, \<open>get_nasa_firms_data\<close>\<close>

definition get_weather_alerts :: "pyval \<Rightarrow> pyval \<Rightarrow> pyval" where
  "get_weather_alerts lat lon =
     PDict [(''coordinates'', PDict [(''lat'', lat), (''lon'', lon)]),
            (''alerts'', PList []),
            (''status'', PStr ''Unable to connect to weather service API'')]"

definition get_nasa_firms_data :: "pyval \<Rightarrow> pyval \<Rightarrow> pyval" where
  "get_nasa_firms_data lat lon =
     PDict [(''coordinates'', PDict [(''lat'', lat), (''lon'', lon)]),
            (''fires'', PList []),
            (''status'', PStr ''Unable to connect to FIRMS API'')]"

subsection \<open>\<open>extract_coordinates_from_query\<close>\<close>

definition deconstruct_prompt_0 :: string where
  "deconstruct_prompt_0 =
     [CHR 0x0A] @ ''        Analyze the following emergency query and extract cr''
     @ ''itical information.'' @ [CHR 0x0A]
     @ ''        Return ONLY a JSON object with keys: '' @ [CHR 0x27] @ ''crisis_type''
     @ [CHR 0x27] @ '', '' @ [CHR 0x27] @ ''location'' @ [CHR 0x27] @ '', '' @ [CHR 0x27]
     @ ''lat'' @ [CHR 0x27] @ '', '' @ [CHR 0x27] @ ''lon'' @ [CHR 0x27] @ ''.'' @ [CHR 0x0A]
     @ ''        Use realistic latitude and longitude values for the ''
     @ ''location mentioned.'' @ [CHR 0x0A] @ ''        '' @ [CHR 0x0A] @ ''        Query: ''
     @ [CHR 0x22]"

definition deconstruct_prompt_1 :: string where
  "deconstruct_prompt_1 =
     [CHR 0x22, CHR 0x0A] @ ''        ''"

definition location_record :: "pyval \<Rightarrow> pyval \<Rightarrow> pyval \<Rightarrow> pyval \<Rightarrow> pyval" where
  "location_record lat lon location_name crisis_type =
     PDict [(''latitude'', lat), (''longitude'', lon), (''location_name'', location_name),
            (''crisis_type'', crisis_type)]"

text \<open>The block under \<open>if client is not None\<close>: \<open>Inr (Some d)\<close> is its \<open>return d\<close>,
  \<open>Inr None\<close> is falling through to the keywords.\<close>

definition coordinates_by_ai :: "agents \<Rightarrow> string \<Rightarrow> exn + pyval option" where
  "coordinates_by_ai a query =
     and_then (rescue_ask_ai a (deconstruct_prompt_0 @ query @ deconstruct_prompt_1)) (\<lambda>response_str.
       if truthy response_str then
         and_then (extract_json_from_value (loads a) response_str) (\<lambda>location_info.
           if truthy location_info then
             and_then (str_in ''lat'' location_info) (\<lambda>has_lat.
               if has_lat then
                 and_then (str_in ''lon'' location_info) (\<lambda>has_lon.
                   if has_lon then
                     and_then (getitem location_info ''lat'') (\<lambda>lat.
                     and_then (getitem location_info ''lon'') (\<lambda>lon.
                     and_then (get location_info ''location'' (PStr ''Unknown Location'')) (\<lambda>name.
                     and_then (get location_info ''crisis_type'' (PStr ''Unknown Crisis'')) (\<lambda>crisis.
                       Inr (Some (location_record lat lon name crisis))))))
                   else Inr None)
               else Inr None)
           else Inr None)
       else Inr None)"

text \<open>The floats of the source are written as the decimal fractions they denote.\<close>

definition coordinates_by_keywords :: "string \<Rightarrow> pyval" where
  "coordinates_by_keywords query =
     (let lower_query = lower query;
          (location_name, lat, lon) =
            (if contains ''punjab'' lower_query
             then (''Punjab, India'', PFloat (Finite 31.1471), PFloat (Finite 75.3412))
             else if contains ''houston'' lower_query
             then (''Houston, Texas, USA'', PFloat (Finite 29.7604), PFloat (Finite (- 95.3698)))
             else if contains ''miami'' lower_query
             then (''Miami, Florida, USA'', PFloat (Finite 25.7617), PFloat (Finite (- 80.1918)))
             else (''Unknown Location'', PInt 0, PInt 0));
          crisis_type =
            (if any_in [''flood'', ''flooding'', ''water''] lower_query then ''flood''
             else if any_in [''fire'', ''wildfire'', ''burning''] lower_query then ''wildfire''
             else if any_in [''earthquake'', ''quake''] lower_query then ''earthquake''
             else if any_in [''hurricane'', ''cyclone'', ''storm''] lower_query then ''hurricane''
             else ''Unknown Crisis'')
      in location_record lat lon (PStr location_name) (PStr crisis_type))"

definition extract_coordinates_from_query :: "agents \<Rightarrow> string \<Rightarrow> exn + pyval" where
  "extract_coordinates_from_query a query =
     (if rescue_client a
      then and_then (coordinates_by_ai a query) (\<lambda>answer.
             case answer of
               Some location_data \<Rightarrow> Inr location_data
             | None \<Rightarrow> Inr (coordinates_by_keywords query))
      else Inr (coordinates_by_keywords query))"

subsection \<open>\<open>generate_triage_brief\<close>\<close>

definition synthesis_prompt_0 :: string where
  "synthesis_prompt_0 =
     [CHR 0x0A] @ ''        You are an AI disaster response assistant named C.L.''
     @ ''A.R.I.O.N.'' @ [CHR 0x0A]
     @ ''        Provide an immediate, actionable, and life-saving br''
     @ ''ief based on the following information.'' @ [CHR 0x0A] @ ''        '' @ [CHR 0x0A]
     @ ''        USER'' @ [CHR 0x27] @ ''S SITUATION:'' @ [CHR 0x0A] @ ''        Query: ''
     @ [CHR 0x22]"

definition synthesis_prompt_1 :: string where
  "synthesis_prompt_1 =
     [CHR 0x22, CHR 0x0A] @ ''        Location: ''"

definition synthesis_prompt_2 :: string where
  "synthesis_prompt_2 =
     '' (''"

definition synthesis_prompt_3 :: string where
  "synthesis_prompt_3 =
     '', ''"

definition synthesis_prompt_4 :: string where
  "synthesis_prompt_4 =
     '')'' @ [CHR 0x0A] @ ''        Crisis Type: ''"

definition synthesis_prompt_5 :: string where
  "synthesis_prompt_5 =
     [CHR 0x0A] @ ''        '' @ [CHR 0x0A] @ ''        VERIFIED OFFICIAL DATA:''
     @ [CHR 0x0A] @ ''        ''"

definition synthesis_prompt_6 :: string where
  "synthesis_prompt_6 =
     [CHR 0x0A] @ ''        '' @ [CHR 0x0A] @ ''        ACTIONABLE CONTACTS & RESOURCES:''
     @ [CHR 0x0A] @ ''        ''"

definition synthesis_prompt_7 :: string where
  "synthesis_prompt_7 =
     [CHR 0x0A] @ ''        '' @ [CHR 0x0A] @ ''        YOUR TASK:'' @ [CHR 0x0A]
     @ ''        Generate a final triage brief as a JSON object with ''
     @ ''the following structure:'' @ [CHR 0x0A] @ ''        1. '' @ [CHR 0x22]
     @ ''safety_warning'' @ [CHR 0x22]
     @ '': A clear, urgent warning about the immediate danger and wha''
     @ ''t action to take'' @ [CHR 0x0A] @ ''        2. '' @ [CHR 0x22]
     @ ''recommended_shelter'' @ [CHR 0x22]
     @ '': Specific shelter location if available, or instructions on''
     @ '' finding shelter'' @ [CHR 0x0A] @ ''        3. '' @ [CHR 0x22] @ ''contactable_aid''
     @ [CHR 0x22] @ '': List of emergency contacts with their details'' @ [CHR 0x0A]
     @ ''        '' @ [CHR 0x0A]
     @ ''        Return ONLY the JSON object with no additional text.'' @ [CHR 0x0A]
     @ ''        ''"

definition safety_heading :: string where
  "safety_heading =
     [CHR 0xEF, CHR 0xA3, CHR 0xBF, CHR 0xFC, CHR 0xF6, CHR 0xAE] @ '' SAFETY WARNING:''"

definition shelter_heading :: string where
  "shelter_heading =
     [CHR 0x0A, CHR 0xEF, CHR 0xA3, CHR 0xBF, CHR 0xFC, CHR 0xE8, CHR 0xE2, CHR 0x80, CHR 0xA0]
     @ '' SHELTER INFORMATION:''"

definition contacts_heading :: string where
  "contacts_heading =
     [CHR 0x0A, CHR 0xE2, CHR 0x80, CHR 0x9A, CHR 0xF2, CHR 0xE9, CHR 0xD4, CHR 0xE2, CHR 0x88, CHR 0x8F, CHR 0xE8]
     @ '' EMERGENCY CONTACTS:''"

text \<open>\<open>verified_data\<close>: one line for each weather alert, and the line on fires.\<close>

definition alert_line :: "agents \<Rightarrow> pyval \<Rightarrow> exn + string" where
  "alert_line a alert =
     and_then (get alert ''type'' PNone) (\<lambda>kind.
     and_then (get alert ''severity'' PNone) (\<lambda>severity.
     and_then (get alert ''description'' PNone) (\<lambda>description.
       Inr (''- '' @ fmt (to_str a) kind @ '' ('' @ fmt (to_str a) severity @ ''): ''
            @ fmt (to_str a) description))))"

definition verified_data :: "agents \<Rightarrow> pyval \<Rightarrow> pyval \<Rightarrow> exn + string" where
  "verified_data a weather_data fire_data =
     and_then (get weather_data ''alerts'' PNone) (\<lambda>alerts.
     and_then (if truthy alerts
               then and_then (get weather_data ''alerts'' (PList [])) (\<lambda>listed.
                    and_then (iterate listed) (\<lambda>items.
                    and_then (for_each (alert_line a) items) (\<lambda>lines.
                    and_then (join_nl (map PStr lines)) (\<lambda>alerts_str.
                      Inr (''WEATHER ALERTS:'' @ nl @ alerts_str @ nl @ nl)))))
               else Inr []) (\<lambda>weather_part.
     and_then (get fire_data ''fires'' PNone) (\<lambda>fires.
       let gathered = weather_part
             @ (if truthy fires then ''ACTIVE FIRES DETECTED IN YOUR AREA'' @ nl @ nl else [])
       in Inr (if gathered = []
               then ''No specific alerts from official sources for your exact location.''
               else gathered))))"

definition actionable_contacts :: "(string \<times> pyval) list \<Rightarrow> web_result list \<Rightarrow> pyval" where
  "actionable_contacts contact_info_by_url web_results =
     PList (map (\<lambda>result.
              PDict [(''name'', PStr (title result)),
                     (''link'', PStr (url result)),
                     (''extracted_contact'',
                        case map_of contact_info_by_url (url result) of
                          None \<Rightarrow> PDict [] | Some c \<Rightarrow> c)])
            web_results)"

text \<open>The block under \<open>if client is not None\<close>: \<open>Inr (Some b)\<close> is its \<open>return b\<close>.\<close>

definition brief_by_ai ::
  "agents \<Rightarrow> string \<Rightarrow> pyval \<Rightarrow> pyval \<Rightarrow> pyval \<Rightarrow> (string \<times> pyval) list \<Rightarrow> web_result list
     \<Rightarrow> exn + pyval option" where
  "brief_by_ai a query location_data weather_data fire_data contact_info_by_url web_results =
     and_then (verified_data a weather_data fire_data) (\<lambda>verified.
     and_then (get location_data ''location_name'' PNone) (\<lambda>name.
     and_then (get location_data ''latitude'' PNone) (\<lambda>lat.
     and_then (get location_data ''longitude'' PNone) (\<lambda>lon.
     and_then (get location_data ''crisis_type'' PNone) (\<lambda>crisis.
       let synthesis_prompt =
             synthesis_prompt_0 @ query @ synthesis_prompt_1 @ fmt (to_str a) name
             @ synthesis_prompt_2 @ fmt (to_str a) lat @ synthesis_prompt_3 @ fmt (to_str a) lon
             @ synthesis_prompt_4 @ fmt (to_str a) crisis @ synthesis_prompt_5 @ verified
             @ synthesis_prompt_6
             @ dumps a (actionable_contacts contact_info_by_url web_results)
             @ synthesis_prompt_7
       in and_then (rescue_ask_ai a synthesis_prompt) (\<lambda>final_brief_str.
            if truthy final_brief_str
            then and_then (extract_json_from_value (loads a) final_brief_str) (\<lambda>final_brief.
                   Inr (if truthy final_brief then Some final_brief else None))
            else Inr None))))))"

definition safety_advice :: "string \<Rightarrow> string" where
  "safety_advice crisis_type =
     (if contains ''flood'' crisis_type
      then ''Seek higher ground immediately. Avoid walking or driving through flood waters.''
      else if contains ''wildfire'' crisis_type \<or> contains ''fire'' crisis_type
      then ''If ordered to evacuate, do so immediately. ''
           @ ''Keep windows and doors closed to prevent embers from entering.''
      else if contains ''hurricane'' crisis_type \<or> contains ''cyclone'' crisis_type
      then ''Secure your property and prepare for high winds and flooding. ''
           @ ''Follow evacuation orders if issued.''
      else if contains ''earthquake'' crisis_type
      then ''Drop, cover, and hold on. Stay away from windows and exterior walls.''
      else ''Follow instructions from local authorities and stay tuned to emergency broadcasts.'')"

definition recommended_shelter :: string where
  "recommended_shelter = ''Contact local authorities for shelter locations. ''
     @ ''If evacuation is necessary, bring emergency supplies including water, food, ''
     @ ''medications, and important documents.''"

text \<open>The contacts of one kind: \<open>if contacts.get(kind): for x in contacts[kind]\<close>, with
  \<open>[:2]\<close> for the emails.\<close>

definition contacts_of_kind :: "pyval \<Rightarrow> string \<Rightarrow> bool \<Rightarrow> exn + pyval list" where
  "contacts_of_kind contacts kind only_two =
     and_then (get contacts kind PNone) (\<lambda>listed.
       if truthy listed
       then and_then (if only_two then first_two listed else Inr listed) (\<lambda>chosen.
            and_then (iterate chosen) (\<lambda>values.
              Inr (map (\<lambda>v. PDict [(''type'', PStr kind), (''value'', v)]) values)))
       else Inr [])"

definition source_name :: "web_result list \<Rightarrow> string \<Rightarrow> string" where
  "source_name web_results u =
     (case filter (\<lambda>result. url result = u) web_results of
        [] \<Rightarrow> u
      | result # others \<Rightarrow> title result)"

text \<open>The entry of one source; \<open>None\<close> when the source is skipped.\<close>

definition aid_entry :: "web_result list \<Rightarrow> string \<times> pyval \<Rightarrow> exn + pyval option" where
  "aid_entry web_results item =
     (let u = fst item; contacts = snd item in
      and_then (str_in ''error'' contacts) (\<lambda>failed.
        if failed then Inr None
        else
          and_then (contacts_of_kind contacts ''emergency_phone'' False) (\<lambda>emergency.
          and_then (contacts_of_kind contacts ''phone'' False) (\<lambda>phones.
          and_then (contacts_of_kind contacts ''email'' True) (\<lambda>emails.
            let entries = emergency @ phones @ emails in
            Inr (if entries \<noteq> []
                 then Some (PDict [(''name'', PStr (source_name web_results u)),
                                   (''contacts'', PList entries)])
                 else None))))))"

definition brief_by_rules ::
  "agents \<Rightarrow> pyval \<Rightarrow> (string \<times> pyval) list \<Rightarrow> web_result list \<Rightarrow> exn + pyval" where
  "brief_by_rules a location_data contact_info_by_url web_results =
     and_then (get location_data ''crisis_type'' (PStr [])) (\<lambda>crisis.
       case crisis of
         PStr c \<Rightarrow>
           let crisis_type = lower c in
           and_then (get location_data ''location_name'' (PStr [])) (\<lambda>location_name.
           and_then (for_each (aid_entry web_results) contact_info_by_url) (\<lambda>entries.
             Inr (PDict
               [(''safety_warning'',
                   PStr (''ATTENTION: Possible '' @ crisis_type @ '' situation reported in ''
                         @ fmt (to_str a) location_name @ ''. '' @ safety_advice crisis_type)),
                (''recommended_shelter'', PStr recommended_shelter),
                (''contactable_aid'', PList (concat (map (\<lambda>e. case e of None \<Rightarrow> [] | Some x \<Rightarrow> [x])
                                                    entries)))])))
       | _ \<Rightarrow> Inl AttributeError)"

definition generate_triage_brief ::
  "agents \<Rightarrow> string \<Rightarrow> pyval \<Rightarrow> pyval \<Rightarrow> pyval \<Rightarrow> (string \<times> pyval) list \<Rightarrow> web_result list
     \<Rightarrow> exn + pyval" where
  "generate_triage_brief a query location_data weather_data fire_data contact_info_by_url
       web_results =
     and_then
       (if rescue_client a
        then brief_by_ai a query location_data weather_data fire_data contact_info_by_url
               web_results
        else Inr None)
       (\<lambda>final_brief.
          case final_brief of
            Some brief \<Rightarrow> Inr brief
          | None \<Rightarrow> brief_by_rules a location_data contact_info_by_url web_results)"

subsection \<open>\<open>run\<close>\<close>

text \<open>Lines 350 to 361: the location comes from \<open>query_info\<close> when it has a true
  \<open>location\<close>, from the query otherwise. An absent \<open>query_info\<close> is \<open>PNone\<close>.\<close>

definition rescue_location_data :: "agents \<Rightarrow> string \<Rightarrow> pyval \<Rightarrow> exn + pyval" where
  "rescue_location_data a query query_info =
     and_then (if truthy query_info then get query_info ''location'' PNone else Inr PNone)
       (\<lambda>provided.
          if truthy provided then
            and_then (getitem query_info ''location'') (\<lambda>location.
            and_then (get query_info ''coordinates'' (PDict [])) (\<lambda>coordinates.
            and_then (get coordinates ''latitude'' PNone) (\<lambda>lat.
            and_then (get query_info ''coordinates'' (PDict [])) (\<lambda>coordinates'.
            and_then (get coordinates' ''longitude'' PNone) (\<lambda>lon.
              Inr (PDict [(''location_name'', location), (''lat'', lat), (''lon'', lon)]))))))
          else extract_coordinates_from_query a query)"

text \<open>One line for each contact of a source of the brief.\<close>

definition contact_entry_line :: "agents \<Rightarrow> pyval \<Rightarrow> exn + pyval" where
  "contact_entry_line a entry =
     and_then (get entry ''type'' (PStr ''contact'')) (\<lambda>kind.
       case kind of
         PStr k \<Rightarrow>
           let contact_type = to_upper a (map (\<lambda>c. if c = CHR ''_'' then CHR '' '' else c) k) in
           and_then (get entry ''value'' (PStr [])) (\<lambda>v.
             Inr (PStr (''- '' @ contact_type @ '': '' @ fmt (to_str a) v)))
       | _ \<Rightarrow> Inl AttributeError)"

definition source_lines :: "agents \<Rightarrow> pyval \<Rightarrow> exn + pyval list" where
  "source_lines a source =
     and_then (get source ''name'' (PStr ''Unknown Source'')) (\<lambda>name.
     and_then (get source ''contacts'' (PList [])) (\<lambda>listed.
     and_then (iterate listed) (\<lambda>contacts.
     and_then (for_each (contact_entry_line a) contacts) (\<lambda>lines.
       Inr (PStr (nl @ fmt (to_str a) name @ '':'') # lines)))))"

text \<open>Step 6 and the returned dict.\<close>

definition format_brief :: "agents \<Rightarrow> pyval \<Rightarrow> pyval \<Rightarrow> exn + pyval" where
  "format_brief a location_data triage_brief =
     and_then (get triage_brief ''safety_warning''
                 (PStr ''No specific safety information available.'')) (\<lambda>warning.
     and_then (get triage_brief ''recommended_shelter''
                 (PStr ''No shelter information available.'')) (\<lambda>shelter.
     and_then (get triage_brief ''contactable_aid'' (PList [])) (\<lambda>contacts.
     and_then (if truthy contacts
               then and_then (iterate contacts) (\<lambda>sources.
                    and_then (for_each (source_lines a) sources) (\<lambda>blocks. Inr (concat blocks)))
               else Inr [PStr ''No specific contact information available.'']) (\<lambda>contact_lines.
     and_then (join_nl ([PStr safety_heading, warning, PStr shelter_heading, shelter,
                         PStr contacts_heading]
                        @ contact_lines
                        @ [PStr (nl @ ''Follow instructions from local authorities and stay ''
                                 @ ''connected to emergency broadcasts.'')])) (\<lambda>response_text.
     and_then (get location_data ''location_name'' PNone) (\<lambda>name.
     and_then (get location_data ''lat'' PNone) (\<lambda>lat.
     and_then (get location_data ''lon'' PNone) (\<lambda>lon.
     and_then (get triage_brief ''crisis_type'' PNone) (\<lambda>crisis.
     and_then (get triage_brief ''urgency_level'' PNone) (\<lambda>urgency.
     and_then (get triage_brief ''immediate_actions'' (PList [])) (\<lambda>actions.
     and_then (get triage_brief ''safety_instructions'' (PList [])) (\<lambda>instructions.
     and_then (get triage_brief ''urgency_level'' (PStr ''high'')) (\<lambda>shown_urgency.
       Inr (PDict
         [(''response'', PStr response_text),
          (''data'', PDict
             [(''location'', name),
              (''coordinates'', PDict [(''latitude'', lat), (''longitude'', lon)]),
              (''timestamp'', clock a),
              (''crisis_type'', crisis),
              (''urgency_level'', urgency),
              (''immediate_actions'', actions),
              (''contacts'', contacts),
              (''safety_instructions'', instructions)]),
          (''info_type'', PStr ''rescue_information''),
          (''location'', name),
          (''is_emergency'', PBool True),
          (''urgency_level'', shown_urgency)]))))))))))))))"

text \<open>Lines 364 to 389: the three reads of \<open>location_data\<close>, the data sources, the
  search, the crawl and the brief. \<open>search_web\<close> and the crawl do not raise.\<close>

definition rescue_agent_run :: "agents \<Rightarrow> string \<Rightarrow> pyval \<Rightarrow> exn + pyval" where
  "rescue_agent_run a query query_info =
     and_then (rescue_location_data a query query_info) (\<lambda>location_data.
     and_then (getitem location_data ''location_name'') (\<lambda>shown_name.
     and_then (getitem location_data ''latitude'') (\<lambda>lat.
     and_then (getitem location_data ''longitude'') (\<lambda>lon.
       let weather_data = get_weather_alerts lat lon;
           fire_data = get_nasa_firms_data lat lon
       in
       and_then (getitem location_data ''location_name'') (\<lambda>name.
         let search_query = ''emergency contact numbers '' @ fmt (to_str a) name
                              @ '' disaster management'';
             web_results = search_web a search_query 3;
             urls = map url web_results;
             contact_info_by_url = crawl_and_extract_contacts_all_urls a urls
         in
         and_then (generate_triage_brief a query location_data weather_data fire_data
                     contact_info_by_url web_results) (\<lambda>triage_brief.
           format_brief a location_data triage_brief))))))"

section \<open>Sample collaborators\<close>

text \<open>\<open>str\<close> on a value that is not a string, for the samples: the text is of no
  consequence in them.\<close>

definition plain_str :: "pyval \<Rightarrow> string" where
  "plain_str v = ''?''"

definition plain_text :: "exn \<Rightarrow> string" where
  "plain_text e = ''error''"

text \<open>\<open>json.loads\<close> on the three fixed replies of \<open>cerebras_llama_call\<close>, the only
  texts it is given when the inference call fails.\<close>

definition loads_defaults :: "string \<Rightarrow> exn + pyval" where
  "loads_defaults s =
     (if s = rescue_default
      then Inr (intent_record ''rescue'' 90 ''Error occurred, defaulting to rescue for safety'')
      else if s = resource_default
      then Inr (intent_record ''resource'' 70
                  ''Error occurred, defaulting to resource based on keywords'')
      else if s = information_default
      then Inr (intent_record ''information'' 50 ''Error occurred, defaulting to information'')
      else Inl JSONDecodeError)"

definition unavailable :: "string \<Rightarrow> pyval \<Rightarrow> exn + pyval" where
  "unavailable query query_info = Inl (Failure ''service unavailable'')"

text \<open>Every collaborator call fails.\<close>

definition all_down :: env where
  "all_down =
     \<lparr>call_cerebras_api = (\<lambda>prompt. Inl (Failure ''connection refused'')),
      json_loads = loads_defaults,
      json_dumps = (\<lambda>v. []),
      time_now = PFloat (Finite 0),
      str_of = plain_str,
      exn_text = plain_text,
      rescue_run = unavailable,
      resource_run = unavailable,
      information_run = unavailable\<rparr>"




text \<open>The response text of a result, empty when there is none.\<close>

definition response_of :: "exn + pyval \<Rightarrow> string" where
  "response_of r =
     (case r of
        Inr (PDict d) \<Rightarrow> (case map_of d ''response'' of Some (PStr s) \<Rightarrow> s | _ \<Rightarrow> [])
      | _ \<Rightarrow> [])"

definition has_key :: "pyval \<Rightarrow> string \<Rightarrow> bool" where
  "has_key v k = (case v of PDict d \<Rightarrow> k \<in> set (map fst d) | _ \<Rightarrow> False)"

text \<open>A query-info whose \<open>crisis_type\<close> is a string, or absent.\<close>

definition crisis_is_text :: "pyval \<Rightarrow> bool" where
  "crisis_is_text query_info =
     (case query_info of
        PDict d \<Rightarrow> (case map_of d ''crisis_type'' of
                      None \<Rightarrow> True | Some (PStr s) \<Rightarrow> True | Some other \<Rightarrow> False)
      | _ \<Rightarrow> False)"

text \<open>What \<open>process_query\<close> makes of the fixed rescue reply.\<close>

definition down_info :: "env \<Rightarrow> string \<Rightarrow> pyval" where
  "down_info env query = PDict
          [(''intent'', PStr ''rescue''), (''confidence'', PInt 90),
           (''reasoning'', PStr ''Error occurred, defaulting to rescue for safety''),
           (''original_query'', PStr query),
           (''processed'', PBool True), (''timestamp'', time_now env),
           (''location'', PNone), (''needs_location_prompt'', PBool True)]"



text \<open>The keys of a dict, in order.\<close>

definition keys :: "pyval \<Rightarrow> string list" where
  "keys v = (case v of PDict d \<Rightarrow> map fst d | _ \<Rightarrow> [])"


text \<open>Search, crawler and both inference clients are missing.\<close>

definition offline :: agents where
  "offline =
     \<lparr>exa = None, crawler = None, resource_client = None, rescue_client = False,
      cerebras = (\<lambda>prompt. Inl (Failure ''connection refused'')),
      loads = (\<lambda>s. Inl JSONDecodeError),
      dumps = (\<lambda>v. []),
      clock = PFloat (Finite 0),
      to_str = plain_str,
      error_text = plain_text,
      to_upper = (\<lambda>s. s)\<rparr>"

text \<open>The orchestrator with the rescue agent in place.\<close>

definition with_rescue :: "env \<Rightarrow> agents \<Rightarrow> env" where
  "with_rescue env a = env\<lparr>rescue_run := rescue_agent_run a\<rparr>"

definition raised :: "exn + pyval \<Rightarrow> bool" where
  "raised r = (case r of Inl e \<Rightarrow> True | Inr v \<Rightarrow> False)"







section \<open>Evaluating the character classes\<close>

text \<open>The classes as decisions on the bits of a character, for evaluation; each is
  proved equal to its definition on all 256 characters.\<close>

lemma is_digit_bits [code]:
  "is_digit (Char b0 b1 b2 b3 b4 b5 b6 b7) =
     (if b7 then False else (if b6 then False else (if b5 then (if b4 then (if b3 then (if b2 then False else \<not> b1) else True) else False) else False)))"
  by (cases b0; cases b1; cases b2; cases b3; cases b4; cases b5; cases b6; cases b7)
     (simp_all add: is_digit_def is_alnum_def is_alpha_def is_upper_def is_lower_def is_digit_def in_range_def code_def)

lemma is_upper_bits [code]:
  "is_upper (Char b0 b1 b2 b3 b4 b5 b6 b7) =
     (if b7 then False else (if b6 then (if b5 then False else (if b4 then (if b3 then (if b2 then False else (if b1 then \<not> b0 else True)) else True) else (if b3 then True else (if b2 then True else (if b1 then True else b0))))) else False))"
  by (cases b0; cases b1; cases b2; cases b3; cases b4; cases b5; cases b6; cases b7)
     (simp_all add: is_upper_def is_alnum_def is_alpha_def is_upper_def is_lower_def is_digit_def in_range_def code_def)

lemma is_lower_bits [code]:
  "is_lower (Char b0 b1 b2 b3 b4 b5 b6 b7) =
     (if b7 then False else (if b6 then (if b5 then (if b4 then (if b3 then (if b2 then False else (if b1 then \<not> b0 else True)) else True) else (if b3 then True else (if b2 then True else (if b1 then True else b0)))) else False) else False))"
  by (cases b0; cases b1; cases b2; cases b3; cases b4; cases b5; cases b6; cases b7)
     (simp_all add: is_lower_def is_alnum_def is_alpha_def is_upper_def is_lower_def is_digit_def in_range_def code_def)

lemma is_space_bits [code]:
  "is_space (Char b0 b1 b2 b3 b4 b5 b6 b7) =
     (if b7 then (if b6 then False else (if b5 then (if b4 then False else (if b3 then False else (if b2 then False else (if b1 then False else \<not> b0)))) else (if b4 then False else (if b3 then False else (if b2 then (if b1 then False else b0) else False))))) else (if b6 then False else (if b5 then (if b4 then False else (if b3 then False else (if b2 then False else (if b1 then False else \<not> b0)))) else (if b4 then (if b3 then b2 else False) else (if b3 then (if b2 then \<not> b1 else (if b1 then True else b0)) else False)))))"
  by (cases b0; cases b1; cases b2; cases b3; cases b4; cases b5; cases b6; cases b7)
     (simp_all add: is_space_def is_alnum_def is_alpha_def is_upper_def is_lower_def is_digit_def in_range_def code_def)

lemma is_word_bits [code]:
  "is_word (Char b0 b1 b2 b3 b4 b5 b6 b7) =
     (if b7 then (if b6 then (if b5 then (if b4 then (if b3 then True else (if b2 then (if b1 then \<not> b0 else True) else True)) else True) else (if b4 then (if b3 then True else (if b2 then (if b1 then \<not> b0 else True) else True)) else True)) else (if b5 then (if b4 then (if b3 then (if b2 then (if b1 then \<not> b0 else True) else (if b1 then \<not> b0 else b0)) else (if b2 then (if b1 then False else b0) else b1)) else (if b3 then (if b2 then False else (if b1 then \<not> b0 else False)) else False)) else False)) else (if b6 then (if b5 then (if b4 then (if b3 then (if b2 then False else (if b1 then \<not> b0 else True)) else True) else (if b3 then True else (if b2 then True else (if b1 then True else b0)))) else (if b4 then (if b3 then (if b2 then (if b1 then b0 else False) else (if b1 then \<not> b0 else True)) else True) else (if b3 then True else (if b2 then True else (if b1 then True else b0))))) else (if b5 then (if b4 then (if b3 then (if b2 then False else \<not> b1) else True) else False) else False)))"
  by (cases b0; cases b1; cases b2; cases b3; cases b4; cases b5; cases b6; cases b7)
     (simp_all add: is_word_def is_alnum_def is_alpha_def is_upper_def is_lower_def is_digit_def in_range_def code_def)

lemma lower_char_bits [code]:
  "lower_char (Char b0 b1 b2 b3 b4 b5 b6 b7) =
     (if (if b7 then (if b6 then (if b5 then False else (if b4 then (if b3 then (if b2 then (if b1 then \<not> b0 else True) else True) else (if b2 then (if b1 then \<not> b0 else True) else True)) else True)) else False) else (if b6 then (if b5 then False else (if b4 then (if b3 then (if b2 then False else (if b1 then \<not> b0 else True)) else True) else (if b3 then True else (if b2 then True else (if b1 then True else b0))))) else False)) then Char b0 b1 b2 b3 b4 True b6 b7 else Char b0 b1 b2 b3 b4 b5 b6 b7)"
  by (cases b0; cases b1; cases b2; cases b3; cases b4; cases b5; cases b6; cases b7)
     (simp_all add: lower_char_def is_upper_def in_range_def code_def char_of_def bit_Suc_0_iff)

section \<open>Properties of the contact extraction\<close>

lemma fromkeys_snoc: "fromkeys (xs @ [x]) = dict_add_key (fromkeys xs) x"
  by (simp add: fromkeys_def)

lemma set_fromkeys: "set (fromkeys xs) = set xs"
  by (induction xs rule: rev_induct) (auto simp: fromkeys_snoc dict_add_key_def fromkeys_def)

lemma distinct_fromkeys: "distinct (fromkeys xs)"
  by (induction xs rule: rev_induct) (auto simp: fromkeys_snoc dict_add_key_def fromkeys_def)

lemma first_index_append: "x \<in> set xs \<Longrightarrow> first_index (xs @ ys) x = first_index xs x"
  by (induction xs) auto

lemma first_index_less: "x \<in> set xs \<Longrightarrow> first_index xs x < length xs"
  by (induction xs) auto

lemma first_index_new: "x \<notin> set xs \<Longrightarrow> first_index (xs @ [x]) x = length xs"
  by (induction xs) auto

lemma sorted_fromkeys:
  "sorted_wrt (\<lambda>a b. first_index xs a < first_index xs b) (fromkeys xs)"
proof (induction xs rule: rev_induct)
  case Nil
  show ?case by (simp add: fromkeys_def)
next
  case (snoc x xs)
  have old: "sorted_wrt (\<lambda>a b. first_index (xs @ [x]) a < first_index (xs @ [x]) b) (fromkeys xs)"
    using snoc.IH
    by (rule sorted_wrt_mono_rel[rotated]) (simp add: set_fromkeys first_index_append)
  show ?case
  proof (cases "x \<in> set xs")
    case True
    then show ?thesis using old by (simp add: fromkeys_snoc dict_add_key_def set_fromkeys)
  next
    case False
    have "first_index (xs @ [x]) a < first_index (xs @ [x]) x" if "a \<in> set xs" for a
      using that False by (simp add: first_index_append first_index_new first_index_less)
    then show ?thesis using old False
      by (simp add: fromkeys_snoc dict_add_key_def set_fromkeys sorted_wrt_append)
  qed
qed

lemma first_seen_order_fromkeys: "first_seen_order xs (fromkeys xs)"
  by (simp add: first_seen_order_def distinct_fromkeys set_fromkeys sorted_fromkeys)

lemma cleaned_emergency_phones_empty: "cleaned_emergency_phones [] = []"
  by code_simp

lemma cleaned_phones_empty: "cleaned_phones [] [] = []"
  by code_simp

lemma email_matches_empty: "findall0 email_pattern [] = []"
  by code_simp

lemma address_parts_empty: "address_parts [] = []"
  by code_simp

text \<open>
  C2. For every text \<open>t\<close>, no string is in both the \<open>emergency_phone\<close> list and the
  \<open>phone\<close> list of \<open>extract_contacts_from_markdown t\<close>.
\<close>

theorem phones_disjoint:
  "set (emergency_phone (extract_contacts_from_markdown t))
     \<inter> set (phone (extract_contacts_from_markdown t)) = {}"
  by (auto simp: extract_contacts_from_markdown_def Let_def set_fromkeys cleaned_phones_def)

text \<open>
  C5. For every text \<open>t\<close>, each of the four lists of \<open>extract_contacts_from_markdown t\<close>
  holds no string twice, and holds the strings its pass collected (the cleaned
  emergency numbers, the cleaned numbers not already among the emergency ones, the
  matches of the email pattern, the validated address parts) in the order in which
  the pass first met them.
\<close>

theorem fields_first_seen:
  "first_seen_order (cleaned_emergency_phones t) (emergency_phone (extract_contacts_from_markdown t))
   \<and> first_seen_order (cleaned_phones t (emergency_phone (extract_contacts_from_markdown t)))
        (phone (extract_contacts_from_markdown t))
   \<and> first_seen_order (findall0 email_pattern t) (email (extract_contacts_from_markdown t))
   \<and> first_seen_order (address_parts t) (address (extract_contacts_from_markdown t))"
proof (cases "t = []")
  case True
  then show ?thesis
    by (simp add: extract_contacts_from_markdown_def cleaned_emergency_phones_empty
        cleaned_phones_empty email_matches_empty address_parts_empty first_seen_order_def)
next
  case False
  then show ?thesis
    by (simp add: extract_contacts_from_markdown_def Let_def first_seen_order_fromkeys)
qed

text \<open>
  C3, on the code. On the text \<open>Emergency Hotline: (800) 555-0123\<close> the emergency
  pattern matches \<open>Hotline: (800) 555-0123\<close>, but \<open>findall\<close> hands back the text of
  the pattern's only group, which belongs to the \<open>tel:\<close> alternative and is empty here:
  nothing is extracted, and \<open>8005550123\<close> is not in \<open>emergency_phone\<close>.
\<close>

theorem hotline_number_not_extracted:
  "extract_contacts_from_markdown ''Emergency Hotline: (800) 555-0123''
     = \<lparr>phone = [], emergency_phone = [], email = [], address = []\<rparr>"
  by code_simp

text \<open>
  C4, on the code. On the text \<open>Call (555) 123-4567 on 2024-05-01\<close> the phone pattern
  matches \<open>(555) 123-4567\<close> and the date, both outside the \<open>tel:\<close> group, so the
  \<open>phone\<close> list is empty and \<open>5551234567\<close> is not in it.
\<close>

theorem call_number_not_extracted:
  "findall1 phone_pattern ''Call (555) 123-4567 on 2024-05-01'' = ['''', '''']
   \<and> phone (extract_contacts_from_markdown ''Call (555) 123-4567 on 2024-05-01'') = []"
  by code_simp

text \<open>
  C6. For the two lines \<open>123 Main St\<close> and \<open>Anytown, ST 90210\<close> the address list is
  the single merged string \<open>123 Main St Anytown, ST 90210\<close>, which contains both
  \<open>123 Main St\<close> and \<open>90210\<close>.
\<close>

theorem two_line_address_merged:
  "address (extract_contacts_from_markdown (''123 Main St'' @ [newline] @ ''Anytown, ST 90210''))
     = [''123 Main St Anytown, ST 90210'']
   \<and> contains ''123 Main St'' ''123 Main St Anytown, ST 90210''
   \<and> contains ''90210'' ''123 Main St Anytown, ST 90210''"
  by code_simp

section \<open>Properties of the orchestrator\<close>

lemma map_of_dset_same: "map_of (dset d k v) k = Some v"
  by (induction d) auto

lemma map_of_dset_other: "k' \<noteq> k \<Longrightarrow> map_of (dset d k v) k' = map_of d k'"
  by (induction d) auto

lemma setitem_Inr: "setitem v k x = Inr r \<Longrightarrow> \<exists>d. v = PDict d \<and> r = PDict (dset d k x)"
  by (auto simp: setitem_def split: pyval.splits)

lemma and_then_Inr: "and_then r f = Inr v \<Longrightarrow> \<exists>a. r = Inr a \<and> f a = Inr v"
  by (auto simp: and_then_def split: sum.splits)

lemma local_info_location:
  "get (orchestrator_local_process_query query) ''location'' PNone = Inr PNone
   \<Longrightarrow> getitem (orchestrator_local_process_query query) ''needs_location_prompt'' = Inr (PBool True)"
  by (auto simp: orchestrator_local_process_query_def Let_def get_def getitem_def split: option.splits)

lemma finish_info_location:
  assumes "finish_info env query extracted_info = Inr info"
    and "get info ''location'' PNone = Inr PNone"
  shows "getitem info ''needs_location_prompt'' = Inr (PBool True)"
proof -
  from assms(1) obtain i1 i2 i3 location where
    s1: "setitem extracted_info ''original_query'' (PStr query) = Inr i1" and
    s2: "setitem i1 ''processed'' (PBool True) = Inr i2" and
    s3: "setitem i2 ''timestamp'' (time_now env) = Inr i3" and
    g: "get i3 ''location'' PNone = Inr location" and
    rest: "(if \<not> truthy location \<or> location = PStr ''null''
       then and_then (setitem i3 ''location'' PNone) (\<lambda>i4.
              setitem i4 ''needs_location_prompt'' (PBool True))
       else and_then (get i3 ''location_confidence'' (PInt 0)) (\<lambda>confidence.
            and_then (lt_half confidence) (\<lambda>low.
              if low then setitem i3 ''needs_location_prompt'' (PBool True) else Inr i3))) = Inr info"
    unfolding finish_info_def by (blast dest!: and_then_Inr)
  from s3 obtain d3 where d3: "i3 = PDict d3" by (auto dest: setitem_Inr)
  show ?thesis
  proof (cases "\<not> truthy location \<or> location = PStr ''null''")
    case True
    with rest d3 show ?thesis
      by (auto simp: and_then_def setitem_def getitem_def map_of_dset_same)
  next
    case False
    then have loc: "truthy location" by simp
    from g d3 have l3: "location = (case map_of d3 ''location'' of None \<Rightarrow> PNone | Some x \<Rightarrow> x)"
      by (auto simp: get_def)
    from False rest obtain confidence low where
      fin: "(if low then setitem i3 ''needs_location_prompt'' (PBool True) else Inr i3) = Inr info"
      by (auto dest!: and_then_Inr)
    have "get info ''location'' PNone = Inr location"
      using fin d3 l3 by (auto simp: setitem_def get_def map_of_dset_other split: if_splits)
    with assms(2) loc show ?thesis by simp
  qed
qed

lemma process_query_cases:
  "process_query env query = Inr info
   \<Longrightarrow> info = orchestrator_local_process_query query
       \<or> (\<exists>extracted_info. finish_info env query extracted_info = Inr info)"
  by (auto simp: process_query_def process_query_body_def Let_def and_then_def
      split: sum.splits if_splits)


lemma starts_with_append: "starts_with p a \<Longrightarrow> starts_with p (a @ b)"
  by (induction p a rule: starts_with.induct) auto

lemma contains_append: "contains p a \<Longrightarrow> contains p (a @ b)"
proof (induction a)
  case Nil
  then show ?case by (cases b) auto
next
  case (Cons c cs)
  then show ?case using starts_with_append[of p "c # cs" b] by auto
qed

lemma contains_take: "contains p (take n s) \<Longrightarrow> contains p s"
  using contains_append[of p "take n s" "drop n s"] by simp

lemma process_head_emergency: "contains ''emergency'' (lower process_prompt_head)"
proof -
  have "contains ''emergency'' (take 40 (lower process_prompt_head))"
    by code_simp
  then show ?thesis by (rule contains_take)
qed

lemma intent_head_emergency: "contains ''emergency'' (lower intent_prompt_head)"
proof -
  have "contains ''emergency'' (take 40 (lower intent_prompt_head))"
    by code_simp
  then show ?thesis by (rule contains_take)
qed

lemma process_prompt_emergency: "contains ''emergency'' (lower (process_prompt query))"
  using contains_append[OF process_head_emergency]
  by (simp add: process_prompt_def lower_def)

lemma intent_prompt_emergency:
  "contains ''emergency'' (lower (intent_prompt env query location crisis_type))"
  using contains_append[OF intent_head_emergency]
  by (simp add: intent_prompt_def lower_def)

lemma llama_call_down:
  assumes "\<And>prompt. \<exists>e. call_cerebras_api env prompt = Inl e"
    and "contains ''emergency'' (lower prompt)"
  shows "cerebras_llama_call env prompt = rescue_default"
proof -
  define modified_prompt where "modified_prompt =
            (if \<not> contains ''JSON'' prompt \<and> \<not> contains ''json'' prompt
             then prompt @ nl @ nl @ ''Please respond with a valid JSON object.''
             else prompt)"
  obtain e where "call_cerebras_api env modified_prompt = Inl e"
    using assms(1) by blast
  then have "llama_call_body env prompt = Inl e"
    unfolding llama_call_body_def Let_def modified_prompt_def[symmetric]
    by (simp add: and_then_def)
  then show ?thesis using assms(2) by (simp add: cerebras_llama_call_def)
qed

lemma process_query_down:
  assumes "\<And>prompt. \<exists>e. call_cerebras_api env prompt = Inl e"
    and "json_loads env rescue_default
           = Inr (intent_record ''rescue'' 90 ''Error occurred, defaulting to rescue for safety'')"
  shows "process_query env query = Inr (down_info env query)"
  using assms(2)
  by (simp add: process_query_def process_query_body_def llama_call_down[OF assms(1) process_prompt_emergency]
      finish_info_def intent_record_def and_then_def setitem_def get_def down_info_def)

lemma route_query_down:
  assumes "\<And>prompt. \<exists>e. call_cerebras_api env prompt = Inl e"
    and "json_loads env rescue_default
           = Inr (intent_record ''rescue'' 90 ''Error occurred, defaulting to rescue for safety'')"
  shows "route_query env query = Inr (location_request (down_info env query))"
  by (simp add: route_query_def process_query_down[OF assms] and_then_def get_def down_info_def)



lemma local_response_shape:
  assumes "orchestrator_generate_local_response str query query_info = Inr r"
  shows "\<exists>text data. r = PDict [(''response'', PStr (text @ local_note)),
                         (''intent'', PStr (local_intent (lower query))),
                         (''query_info'', query_info),
                         (''agent_data'', data),
                         (''used_local_fallback'', PBool True)]"
  using assms unfolding orchestrator_generate_local_response_def Let_def
  by (auto dest!: and_then_Inr split: prod.splits)

lemma lookup_instructions_text: "\<exists>l. lookup_instructions (PStr s) = Inr l"
  by (simp add: lookup_instructions_def)

lemma local_response_returns:
  assumes "crisis_is_text query_info"
  shows "\<exists>r. orchestrator_generate_local_response str query query_info = Inr r"
proof -
  from assms obtain d where d: "query_info = PDict d"
    by (auto simp: crisis_is_text_def split: pyval.splits)
  from assms d obtain s where c: "get query_info ''crisis_type'' (PStr ''general'') = Inr (PStr s)"
    by (auto simp: crisis_is_text_def get_def split: option.splits pyval.splits)
  obtain location where l: "get query_info ''location'' (PStr ''your area'') = Inr location"
    using d by (auto simp: get_def)
  obtain needs where n: "get query_info ''needs_medical'' (PBool False) = Inr needs"
    using d by (auto simp: get_def)
  have a: "\<exists>x. rescue_response str (PStr s) location = Inr x"
    by (simp add: rescue_response_def and_then_def lookup_instructions_def)
  have b: "\<exists>x. information_response str (PStr s) location = Inr x"
    by (simp add: information_response_def and_then_def lookup_instructions_def)
  have e: "\<exists>x. resource_response str (lower query) query_info (PStr s) location = Inr x"
    using n by (simp add: resource_response_def and_then_def medical_in_def Let_def)
  show ?thesis
    unfolding orchestrator_generate_local_response_def Let_def
    using a b e c l by (auto simp: and_then_def split: prod.splits)
qed





lemma process_query_returns: "\<exists>info. process_query env query = Inr info"
  by (simp add: process_query_def split: sum.splits)

lemma local_crisis_text: "crisis_is_text (orchestrator_local_process_query query)"
  by (simp add: crisis_is_text_def orchestrator_local_process_query_def Let_def)

lemma agent_error_local:
  "\<exists>text data. agent_error_response env query intent (orchestrator_local_process_query query)
     = Inr (PDict [(''response'', PStr (text @ local_note)),
                   (''intent'', PStr intent),
                   (''query_info'', orchestrator_local_process_query query),
                   (''agent_data'', data),
                   (''used_local_fallback'', PBool True)])"
proof -
  obtain r where r: "orchestrator_generate_local_response (str_of env) query
      (orchestrator_local_process_query query) = Inr r"
    using local_response_returns[OF local_crisis_text] by blast
  from local_response_shape[OF r] obtain body data where
    "r = PDict [(''response'', PStr (body @ local_note)),
                (''intent'', PStr (local_intent (lower query))),
                (''query_info'', orchestrator_local_process_query query),
                (''agent_data'', data),
                (''used_local_fallback'', PBool True)]" by blast
  with r show ?thesis
    by (simp add: agent_error_response_def and_then_def setitem_def)
qed









lemma all_down_fails: "\<exists>e. call_cerebras_api all_down prompt = Inl e"
  by (simp add: all_down_def)

lemma all_down_loads:
  "json_loads all_down rescue_default
     = Inr (intent_record ''rescue'' 90 ''Error occurred, defaulting to rescue for safety'')"
  by (simp add: all_down_def loads_defaults_def)

lemma hello_no_location: "find_location ''hello'' = None"
  by code_simp

text \<open>
  C7. For every query and every behaviour of the collaborators, \<open>process_query\<close>
  returns a query-info, and that query-info has \<open>needs_location_prompt = True\<close>
  whenever its \<open>location\<close> is \<open>None\<close>; the same holds of the query-info that
  \<open>orchestrator_local_process_query\<close> builds.
\<close>

theorem location_null_needs_prompt:
  "(\<exists>info. process_query env query = Inr info)
   \<and> (process_query env query = Inr info \<longrightarrow> get info ''location'' PNone = Inr PNone
        \<longrightarrow> getitem info ''needs_location_prompt'' = Inr (PBool True))
   \<and> (get (orchestrator_local_process_query query) ''location'' PNone = Inr PNone
        \<longrightarrow> getitem (orchestrator_local_process_query query) ''needs_location_prompt''
            = Inr (PBool True))"
proof (intro conjI impI)
  show "\<exists>info. process_query env query = Inr info"
    by (rule process_query_returns)
next
  assume "process_query env query = Inr info" and "get info ''location'' PNone = Inr PNone"
  then show "getitem info ''needs_location_prompt'' = Inr (PBool True)"
    using process_query_cases local_info_location finish_info_location by blast
next
  assume "get (orchestrator_local_process_query query) ''location'' PNone = Inr PNone"
  then show "getitem (orchestrator_local_process_query query) ''needs_location_prompt''
            = Inr (PBool True)"
    by (rule local_info_location)
qed

theorem location_null_needs_prompt_witness:
  "process_query all_down ''hello'' = Inr (down_info all_down ''hello'')
   \<and> get (down_info all_down ''hello'') ''location'' PNone = Inr PNone
   \<and> getitem (down_info all_down ''hello'') ''needs_location_prompt'' = Inr (PBool True)
   \<and> get (orchestrator_local_process_query ''hello'') ''location'' PNone = Inr PNone
   \<and> getitem (orchestrator_local_process_query ''hello'') ''needs_location_prompt''
       = Inr (PBool True)"
proof -
  have h1: "process_query all_down ''hello'' = Inr (down_info all_down ''hello'')"
    by (rule process_query_down[OF all_down_fails all_down_loads])
  have h2: "get (down_info all_down ''hello'') ''location'' PNone = Inr PNone"
    by (simp add: down_info_def get_def)
  have h3: "get (orchestrator_local_process_query ''hello'') ''location'' PNone = Inr PNone"
    by (simp add: orchestrator_local_process_query_def Let_def get_def hello_no_location)
  show ?thesis
    using location_null_needs_prompt[of all_down "''hello''" "down_info all_down ''hello''"] h1 h2 h3
    by simp
qed

text \<open>
  C8, on the code. With every collaborator call failing, \<open>cerebras_llama_call\<close>
  swallows the failure and hands back its fixed rescue reply; \<open>process_query\<close> parses
  that reply as the query-info, finds no location in it and asks for a prompt. So
  \<open>route_query\<close> on \<open>there is a fire near me\<close> returns the request for a location: no
  \<open>used_local_fallback\<close>, no fire instructions.
\<close>

theorem api_down_asks_for_location:
  "route_query all_down ''there is a fire near me''
     = Inr (location_request (down_info all_down ''there is a fire near me''))
   \<and> \<not> has_key (location_request (down_info all_down ''there is a fire near me''))
         ''used_local_fallback''
   \<and> response_of (route_query all_down ''there is a fire near me'')
       = ''I need to know your location to help with this request. Can you share your current location?''"
proof -
  have "route_query all_down ''there is a fire near me''
     = Inr (location_request (down_info all_down ''there is a fire near me''))"
    by (rule route_query_down[OF all_down_fails all_down_loads])
  then show ?thesis
    by (simp add: location_request_def has_key_def response_of_def)
qed

text \<open>
  C9, as stated, fails: the note that marks a local response reads otherwise. For the
  query \<open>help\<close> and an empty query-info the response is the rescue text with the general
  instructions, and \<open>[generated via local protocol]\<close> does not occur in it.
\<close>

theorem local_marker_absent:
  "response_of (orchestrator_generate_local_response plain_str ''help'' (PDict []))
     = ''EMERGENCY RESCUE INFORMATION:'' @ nl @ nl
       @ ''For your location (your area), please follow these safety instructions:'' @ nl @ nl
       @ numbered 1 general_instructions @ nl
       @ ''Contact emergency services immediately: 911'' @ local_note
   \<and> \<not> contains ''[generated via local protocol]''
         (response_of (orchestrator_generate_local_response plain_str ''help'' (PDict [])))"
  by code_simp

text \<open>
  C9, amended. \<open>orchestrator_generate_local_response\<close> takes no collaborator. Whenever
  it returns, the result has \<open>used_local_fallback = True\<close> and its response text ends
  with the note \<open>[Note: This response was generated using local emergency protocols
  due to connection issues.]\<close>; and it returns for every query and every query-info
  whose \<open>crisis_type\<close> is a string or absent.
\<close>

theorem local_response_marked:
  "(orchestrator_generate_local_response str query query_info = Inr r
      \<longrightarrow> getitem r ''used_local_fallback'' = Inr (PBool True)
          \<and> (\<exists>body. getitem r ''response'' = Inr (PStr (body @ local_note))))
   \<and> (crisis_is_text query_info
      \<longrightarrow> (\<exists>r. orchestrator_generate_local_response str query query_info = Inr r))"
  using local_response_shape[of str query query_info r]
    local_response_returns[of query_info str query]
  by (auto simp: getitem_def)

theorem local_response_marked_witness:
  "crisis_is_text (PDict [])
   \<and> and_then (orchestrator_generate_local_response plain_str ''help'' (PDict []))
        (\<lambda>r. getitem r ''used_local_fallback'') = Inr (PBool True)"
proof -
  have h: "crisis_is_text (PDict [])"
    by (simp add: crisis_is_text_def)
  then obtain r where r: "orchestrator_generate_local_response plain_str ''help'' (PDict []) = Inr r"
    using local_response_marked[of plain_str "''help''" "PDict []"] by blast
  then have "getitem r ''used_local_fallback'' = Inr (PBool True)"
    using local_response_marked[of plain_str "''help''" "PDict []" r] by blast
  with h r show ?thesis by (simp add: and_then_def)
qed



lemma location_data_with_location:
  assumes "get query_info ''location'' PNone = Inr location" and "truthy location"
  shows "rescue_location_data a query query_info = Inl AttributeError
         \<or> (\<exists>lat lon. rescue_location_data a query query_info
               = Inr (PDict [(''location_name'', location), (''lat'', lat), (''lon'', lon)]))"
proof -
  from assms obtain d where d: "query_info = PDict d" and l: "map_of d ''location'' = Some location"
    by (auto simp: get_def split: pyval.splits option.splits)
  then have t: "truthy query_info" by auto
  obtain c where c: "get query_info ''coordinates'' (PDict []) = Inr c"
    using d by (auto simp: get_def)
  show ?thesis
  proof (cases "\<exists>cd. c = PDict cd")
    case True
    then show ?thesis using assms t c d l
      by (auto simp: rescue_location_data_def and_then_def getitem_def get_def)
  next
    case False
    then have "get c ''latitude'' PNone = Inl AttributeError"
      by (auto simp: get_def split: pyval.splits)
    then show ?thesis using assms t c d l
      by (simp add: rescue_location_data_def and_then_def getitem_def)
  qed
qed

lemma run_with_location:
  assumes "get query_info ''location'' PNone = Inr location" and "truthy location"
  shows "rescue_agent_run a query query_info = Inl (KeyError ''latitude'')
         \<or> rescue_agent_run a query query_info = Inl AttributeError"
  using location_data_with_location[OF assms, of a query]
  by (auto simp: rescue_agent_run_def and_then_def getitem_def)


text \<open>
  C10, as stated, fails for a location that is present but empty: the rescue agent
  tests the truth of \<open>query_info.get('location')\<close>, not whether it is \<open>None\<close>. With
  \<open>location = ''\<close> (which \<open>orchestrator_local_process_query\<close> yields for a query like
  \<open>at\<close> followed by two spaces) it locates from the query instead, reads \<open>latitude\<close> and
  \<open>longitude\<close> from what \<open>extract_coordinates_from_query\<close> built, and answers; here
  with search, crawler and inference all missing.
\<close>

theorem empty_location_is_answered:
  "get (PDict [(''location'', PStr [])]) ''location'' PNone = Inr (PStr [])
   \<and> \<not> raised (rescue_agent_run offline ''there is a fire'' (PDict [(''location'', PStr [])]))
   \<and> response_of (rescue_agent_run offline ''there is a fire'' (PDict [(''location'', PStr [])]))
       = safety_heading @ nl
         @ ''ATTENTION: Possible wildfire situation reported in Unknown Location. ''
         @ safety_advice ''wildfire'' @ nl
         @ shelter_heading @ nl @ recommended_shelter @ nl
         @ contacts_heading @ nl @ ''No specific contact information available.'' @ nl @ nl
         @ ''Follow instructions from local authorities and stay connected to emergency broadcasts.''"
  by code_simp


text \<open>
  C10, amended. For every call of the rescue agent's \<open>run\<close> with a query-info whose
  \<open>location\<close> is true (not \<open>None\<close>, not empty), the handler raises before it produces
  a response: it builds \<open>location_data\<close> with the keys \<open>lat\<close> and \<open>lon\<close> and then reads
  \<open>latitude\<close>, a \<open>KeyError\<close> (or, when \<open>coordinates\<close> of the query-info is not a dict,
  an \<open>AttributeError\<close> one step earlier). So step 3 of \<open>route_query\<close>, routing such a
  query to the rescue agent, always answers through its handler for agent errors:
  the local response, with \<open>used_local_fallback = True\<close>.
\<close>

theorem located_rescue_raises:
  assumes "get query_info ''location'' PNone = Inr location" and "truthy location"
  shows "(rescue_agent_run a query query_info = Inl (KeyError ''latitude'')
            \<or> rescue_agent_run a query query_info = Inl AttributeError)
         \<and> Inr (route_to_agent (with_rescue env a) query ''rescue'' False query_info)
             = agent_error_response (with_rescue env a) query ''rescue''
                 (orchestrator_local_process_query query)
         \<and> getitem (route_to_agent (with_rescue env a) query ''rescue'' False query_info)
               ''used_local_fallback'' = Inr (PBool True)"
proof -
  have r: "rescue_agent_run a query query_info = Inl (KeyError ''latitude'')
            \<or> rescue_agent_run a query query_info = Inl AttributeError"
    by (rule run_with_location[OF assms])
  obtain body data where
    f: "agent_error_response (with_rescue env a) query ''rescue''
          (orchestrator_local_process_query query)
        = Inr (PDict [(''response'', PStr (body @ local_note)),
                   (''intent'', PStr ''rescue''),
                   (''query_info'', orchestrator_local_process_query query),
                   (''agent_data'', data),
                   (''used_local_fallback'', PBool True)])"
    using agent_error_local[of "with_rescue env a" query "''rescue''"] by blast
  have "dispatch (with_rescue env a) ''rescue'' query query_info = rescue_agent_run a query query_info"
    by (simp add: dispatch_def with_rescue_def)
  with r f have "route_to_agent (with_rescue env a) query ''rescue'' False query_info
      = PDict [(''response'', PStr (body @ local_note)),
                   (''intent'', PStr ''rescue''),
                   (''query_info'', orchestrator_local_process_query query),
                   (''agent_data'', data),
                   (''used_local_fallback'', PBool True)]"
    by (auto simp: route_to_agent_def)
  with r f show ?thesis by (simp add: getitem_def)
qed


theorem located_rescue_raises_witness:
  "get (PDict [(''location'', PStr ''Austin'')]) ''location'' PNone = Inr (PStr ''Austin'')
   \<and> truthy (PStr ''Austin'')
   \<and> (rescue_agent_run offline ''help'' (PDict [(''location'', PStr ''Austin'')])
         = Inl (KeyError ''latitude'')
       \<or> rescue_agent_run offline ''help'' (PDict [(''location'', PStr ''Austin'')])
         = Inl AttributeError)
   \<and> getitem (route_to_agent (with_rescue all_down offline) ''help'' ''rescue'' False
                (PDict [(''location'', PStr ''Austin'')]))
         ''used_local_fallback'' = Inr (PBool True)"
proof -
  have h1: "get (PDict [(''location'', PStr ''Austin'')]) ''location'' PNone = Inr (PStr ''Austin'')"
    by (simp add: get_def)
  have h2: "truthy (PStr ''Austin'')"
    by simp
  show ?thesis
    using located_rescue_raises[OF h1 h2, of offline "''help''" all_down] h1 h2 by simp
qed













end
